theory Spec2Isabelle
  imports Main
begin

section \<open>Python strings, paths and integers used by the handler\<close>

text \<open>
  Strings are lists of characters with code points below 256. The functions below are the
  Python built-ins and the \<^verbatim>\<open>posixpath\<close> function that \<^verbatim>\<open>BaseHandler.initialize\<close>
  calls on strings, written out with the behaviour they have on such characters.
\<close>

definition isspace :: "char \<Rightarrow> bool" where
  \<comment> \<open>\<^verbatim>\<open>str.isspace\<close> on one character: tab, LF, VT, FF, CR, FS, GS, RS, US, space, NEL, NBSP\<close>
  "isspace c = (c \<in> set [CHR 0x09, CHR 0x0A, CHR 0x0B, CHR 0x0C, CHR 0x0D,
                          CHR 0x1C, CHR 0x1D, CHR 0x1E, CHR 0x1F, CHR 0x20, CHR 0x85, CHR 0xA0])"

definition strip :: "string \<Rightarrow> string" where
  \<comment> \<open>\<^verbatim>\<open>s.strip()\<close>\<close>
  "strip s = rev (dropWhile isspace (rev (dropWhile isspace s)))"

fun str_split :: "char \<Rightarrow> string \<Rightarrow> string list" where
  \<comment> \<open>\<^verbatim>\<open>s.split(sep)\<close> for a separator of one character: never the empty list\<close>
  "str_split sep [] = [[]]"
| "str_split sep (c # cs) =
     (if c = sep then [] # str_split sep cs
      else (case str_split sep cs of
              [] \<Rightarrow> [[c]]
            | piece # pieces \<Rightarrow> (c # piece) # pieces))"

fun startswith :: "string \<Rightarrow> string \<Rightarrow> bool" where
  \<comment> \<open>\<^verbatim>\<open>s.startswith(p)\<close>\<close>
  "startswith s [] = True"
| "startswith [] (p # ps) = False"
| "startswith (c # cs) (p # ps) = (c = p \<and> startswith cs ps)"

definition endswith_sep :: "string \<Rightarrow> bool" where
  \<comment> \<open>\<^verbatim>\<open>s.endswith('/')\<close>\<close>
  "endswith_sep s = (case rev s of [] \<Rightarrow> False | c # _ \<Rightarrow> c = CHR ''/'')"

fun str_contains :: "string \<Rightarrow> string \<Rightarrow> bool" where
  \<comment> \<open>\<^verbatim>\<open>sub in s\<close> on strings\<close>
  "str_contains sub [] = (sub = [])"
| "str_contains sub (c # cs) = (startswith (c # cs) sub \<or> str_contains sub cs)"

definition path_join :: "string \<Rightarrow> string \<Rightarrow> string" where
  \<comment> \<open>\<^verbatim>\<open>os.path.join(a, b)\<close> of posixpath\<close>
  "path_join a b =
     (if startswith b ''/'' then b
      else if a = [] \<or> endswith_sep a then a @ b
      else a @ ''/'' @ b)"

fun str_nat :: "nat \<Rightarrow> string" where
  "str_nat n =
     (if n < 10 then [''0123456789'' ! n]
      else str_nat (n div 10) @ [''0123456789'' ! (n mod 10)])"

declare str_nat.simps [simp del]

definition str_int :: "int \<Rightarrow> string" where
  \<comment> \<open>\<^verbatim>\<open>str(i)\<close> for an int\<close>
  "str_int i = (if i < 0 then CHR ''-'' # str_nat (nat (- i)) else str_nat (nat i))"

definition py_str :: "int option \<Rightarrow> string" where
  \<comment> \<open>\<^verbatim>\<open>str(v)\<close> for \<^verbatim>\<open>v = properties.get("gpu_id")\<close>: an int, or None when the key is
      absent (or holds None)\<close>
  "py_str v = (case v of None \<Rightarrow> ''None'' | Some i \<Rightarrow> str_int i)"

definition isdigit :: "char \<Rightarrow> bool" where
  "isdigit c = (c \<in> set ''0123456789'')"

definition digit_val :: "char \<Rightarrow> int" where
  "digit_val c = int (of_char c) - 48"

definition c_isspace :: "char \<Rightarrow> bool" where
  \<comment> \<open>the white space \<^verbatim>\<open>int()\<close> skips around the number: tab, LF, VT, FF, CR and space only\<close>
  "c_isspace c = (c \<in> set [CHR 0x09, CHR 0x0A, CHR 0x0B, CHR 0x0C, CHR 0x0D, CHR 0x20])"

definition to_ascii :: "string \<Rightarrow> string" where
  \<comment> \<open>what \<^verbatim>\<open>int()\<close> does to a str before it parses: an ASCII str is taken as it is; in any
      other str, a character from 127 on becomes a space if it is white space (NEL, NBSP) and
      an invalid character otherwise\<close>
  "to_ascii s =
     (if list_all (\<lambda>c. (of_char c :: nat) < 128) s then s
      else map (\<lambda>c. if (of_char c :: nat) < 127 then c
                    else if isspace c then CHR '' '' else CHR ''?'') s)"

fun digit_groups :: "string \<Rightarrow> bool" where
  \<comment> \<open>the digit part of an int literal: digits, single underscores only between digits\<close>
  "digit_groups [] = False"
| "digit_groups [c] = isdigit c"
| "digit_groups (c # d # cs) =
     (isdigit c \<and> (if d = CHR ''_'' then digit_groups cs else digit_groups (d # cs)))"

definition py_int :: "nat \<Rightarrow> string \<Rightarrow> int option" where
  \<comment> \<open>\<^verbatim>\<open>int(s)\<close> for a str, base 10; None where Python raises ValueError. The first argument
      is \<^verbatim>\<open>sys.get_int_max_str_digits()\<close> (0: no limit, also on a Python without the limit):
      a number of more than 640 digits that exceeds it is refused\<close>
  "py_int max_str_digits s =
     (let t = rev (dropWhile c_isspace (rev (dropWhile c_isspace (to_ascii s))));
          neg = startswith t ''-'';
          body = (if startswith t ''-'' \<or> startswith t ''+'' then tl t else t);
          digits = filter (\<lambda>c. c \<noteq> CHR ''_'') body
      in if digit_groups body
            \<and> \<not> (640 < length digits \<and> 0 < max_str_digits \<and> max_str_digits < length digits)
         then Some ((if neg then - 1 else 1) * foldl (\<lambda>acc c. 10 * acc + digit_val c) 0 digits)
         else None)"

section \<open>Data model\<close>

datatype torch_device = TorchDevice string
  \<comment> \<open>the device \<^verbatim>\<open>torch.device(s)\<close> returned, identified by the device string \<^verbatim>\<open>s\<close>\<close>

datatype error =
    RuntimeError string
  | ValueError string
  | KeyError string
  | Raised string
  \<comment> \<open>the two exceptions \<^verbatim>\<open>initialize\<close> raises itself, with their messages; the
      KeyError of a dict subscript; \<^verbatim>\<open>Raised f\<close> is whatever the built-in or library call
      \<^verbatim>\<open>f\<close> raised\<close>

datatype loglevel = DEBUG | WARNING

record pyclass =
  cls_module :: string
  cls_name :: string

datatype member = ClassMember pyclass | OtherMember

record pymodule =
  mod_name :: string
  members :: "(string \<times> member) list"

datatype json =
    JNull
  | JBool bool
  | JInt int
  | JStr string
  | JArr "json list"
  | JObj "(string \<times> json) list"
  \<comment> \<open>what \<^verbatim>\<open>json.load\<close> returns (floats apart): the keys of an object are strings\<close>

type_synonym state_dict = "(string \<times> string) list"

datatype model_kind = EagerModel pyclass | ScriptModule string

record model_handle =
  kind :: model_kind
  params :: state_dict
  resident :: torch_device
  training :: bool

record model_entry =
  serializedFile :: string
  modelFile :: "string option"

record manifest_rec =
  manifest_model :: model_entry

record properties =
  model_dir :: string
  gpu_id :: "int option"

record deployment_context =
  ctx_manifest :: manifest_rec
  system_properties :: properties

record handler =
  model :: "model_handle option"
  mapping :: "json option"
  device :: "torch_device option"
  initialized :: bool
  manifest :: "manifest_rec option"

record ipex_module =
  DEVICE :: "string option"
  enable_auto_mix_precision_raises :: bool

text \<open>
  Everything outside the handler that \<^verbatim>\<open>initialize\<close> reads or writes: the host
  (accelerator, vendor library, \<^verbatim>\<open>lscpu\<close> output, process environment), the file
  system, and the results of the library calls, None (or a flag) where the call raises.
  Of the vendor library, \<^verbatim>\<open>DEVICE\<close> is None when the module has no such attribute, and
  the flag says that calling \<^verbatim>\<open>enable_auto_mix_precision\<close> raises (also when the module
  has no such function). \<^verbatim>\<open>lscpu\<close> is None when running the command or reading its
  output raises.
\<close>

record world =
  cuda_is_available :: bool
  torch_device_rejects :: "string \<Rightarrow> bool"
  intel_pytorch_extension :: "ipex_module option"
  amp_enabled :: bool
  environ :: "string \<rightharpoonup> string"
  lscpu :: "string list option"
  int_max_str_digits :: nat
  isfile :: "string \<Rightarrow> bool"
  import_module :: "string \<Rightarrow> pymodule option"
  torch_load :: "string \<Rightarrow> string \<Rightarrow> state_dict option"
  instantiate :: "pyclass \<Rightarrow> model_handle option"
  load_state_dict_raises :: "model_handle \<Rightarrow> state_dict \<Rightarrow> bool"
  torch_jit_load :: "string \<Rightarrow> string \<Rightarrow> model_handle option"
  to_raises :: "model_handle \<Rightarrow> torch_device \<Rightarrow> bool"
  json_load :: "string \<Rightarrow> json option"
  log :: "(loglevel \<times> string) list"

text \<open>
  What the model takes for granted. The context is well formed: \<^verbatim>\<open>model_dir\<close> and
  \<^verbatim>\<open>serializedFile\<close> are strings, as the manifest and the runtime give them, while
  \<^verbatim>\<open>modelFile\<close> and \<^verbatim>\<open>gpu_id\<close> may be absent. \<^verbatim>\<open>Module.eval\<close> and the logger do not
  raise. Every other library call can raise, and then \<^verbatim>\<open>initialize\<close> stops there,
  outside the \<^verbatim>\<open>try\<close> of lines 41 to 55.
\<close>

section \<open>Library operations\<close>

definition device_index_text :: "string \<Rightarrow> string option" where
  \<comment> \<open>the text after the first colon of a device string, if it has a colon\<close>
  "device_index_text s =
     (case dropWhile (\<lambda>c. c \<noteq> CHR '':'') s of [] \<Rightarrow> None | colon # rest \<Rightarrow> Some rest)"

definition torch_device :: "world \<Rightarrow> string \<Rightarrow> error + torch_device" where
  \<comment> \<open>\<^verbatim>\<open>torch.device(s)\<close>: \<^verbatim>\<open>cpu\<close> is a device; a string with a colon is one only if decimal
      digits, and at least one, follow the first colon; beyond that the installed library
      says which strings it refuses (a type it does not know, an ordinal out of its range).
      It raises RuntimeError on the others\<close>
  "torch_device w s =
     (if s = ''cpu'' then Inr (TorchDevice s)
      else if (case device_index_text s of
                 None \<Rightarrow> False
               | Some ordinal \<Rightarrow> ordinal = [] \<or> \<not> list_all isdigit ordinal)
              \<or> torch_device_rejects w s
      then Inl (Raised ''torch.device'')
      else Inr (TorchDevice s))"

definition Module_to :: "world \<Rightarrow> model_handle \<Rightarrow> torch_device \<Rightarrow> model_handle option" where
  \<comment> \<open>\<^verbatim>\<open>model.to(device)\<close>: moves the parameters, in place, or raises\<close>
  "Module_to w m d = (if to_raises w m d then None else Some (m\<lparr>resident := d\<rparr>))"

definition Module_eval :: "model_handle \<Rightarrow> model_handle" where
  \<comment> \<open>\<^verbatim>\<open>model.eval()\<close>: leaves training mode\<close>
  "Module_eval m = m\<lparr>training := False\<rparr>"

definition load_state_dict :: "world \<Rightarrow> model_handle \<Rightarrow> state_dict \<Rightarrow> model_handle option" where
  \<comment> \<open>\<^verbatim>\<open>model.load_state_dict(sd)\<close>: the parameters take the saved values, or it raises\<close>
  "load_state_dict w m sd = (if load_state_dict_raises w m sd then None else Some (m\<lparr>params := sd\<rparr>))"

definition dict_getitem :: "(string \<times> json) list \<Rightarrow> string \<Rightarrow> error + json" where
  \<comment> \<open>\<^verbatim>\<open>d[k]\<close> for a str \<^verbatim>\<open>k\<close> on a dict that \<^verbatim>\<open>json.load\<close> built, given by its items\<close>
  "dict_getitem items k = (case map_of items k of None \<Rightarrow> Inl (KeyError k) | Some v \<Rightarrow> Inr v)"

section \<open>The handler\<close>

definition BaseHandler_init :: handler where
  \<comment> \<open>\<^verbatim>\<open>__init__\<close>\<close>
  "BaseHandler_init =
     \<lparr>model = None, mapping = None, device = None, initialized = False, manifest = None\<rparr>"

definition logger :: "loglevel \<Rightarrow> string \<Rightarrow> world \<Rightarrow> world" where
  "logger lvl msg w = w\<lparr>log := log w @ [(lvl, msg)]\<rparr>"

definition artifact_path :: "deployment_context \<Rightarrow> string" where
  \<comment> \<open>\<^verbatim>\<open>model_pt_path\<close>\<close>
  "artifact_path ctx =
     path_join (model_dir (system_properties ctx)) (serializedFile (manifest_model (ctx_manifest ctx)))"

definition model_file_of :: "deployment_context \<Rightarrow> string" where
  \<comment> \<open>\<^verbatim>\<open>self.manifest['model'].get('modelFile', "")\<close>\<close>
  "model_file_of ctx =
     (case modelFile (manifest_model (ctx_manifest ctx)) of None \<Rightarrow> [] | Some f \<Rightarrow> f)"

definition model_def_path :: "deployment_context \<Rightarrow> string" where
  "model_def_path ctx = path_join (model_dir (system_properties ctx)) (model_file_of ctx)"

definition mapping_file_path :: "deployment_context \<Rightarrow> string" where
  "mapping_file_path ctx = path_join (model_dir (system_properties ctx)) ''index_to_name.json''"

definition map_location_of :: "world \<Rightarrow> string" where
  \<comment> \<open>\<^verbatim>\<open>map_location\<close>\<close>
  "map_location_of w = (if cuda_is_available w then ''cuda'' else ''cpu'')"

definition device_string :: "deployment_context \<Rightarrow> world \<Rightarrow> string" where
  \<comment> \<open>the argument of \<^verbatim>\<open>torch.device\<close> at line 37\<close>
  "device_string ctx w =
     (if cuda_is_available w
      then map_location_of w @ '':'' @ py_str (gpu_id (system_properties ctx))
      else map_location_of w)"

definition resolve_device ::
  "handler \<Rightarrow> deployment_context \<Rightarrow> world \<Rightarrow> (error + unit) \<times> handler" where
  \<comment> \<open>lines 32 to 38: the manifest is assigned first; the device is assigned only if
      \<^verbatim>\<open>torch.device\<close> returns\<close>
  "resolve_device h ctx w =
     (let h1 = h\<lparr>manifest := Some (ctx_manifest ctx)\<rparr>
      in case torch_device w (device_string ctx w) of
           Inl e \<Rightarrow> (Inl e, h1)
         | Inr d \<Rightarrow> (Inr (), h1\<lparr>device := Some d\<rparr>))"

definition KMP_compact :: string where
  "KMP_compact = ''granularity=fine,verbose,compact''"

definition KMP_compact_1_0 :: string where
  "KMP_compact_1_0 = ''granularity=fine,verbose,compact,1,0''"

definition per_core_of :: "string list \<Rightarrow> string list" where
  \<comment> \<open>\<^verbatim>\<open>[val.strip().split(" ")[-1] for val in lscpu if "per core" in val]\<close>\<close>
  "per_core_of lines =
     map (\<lambda>val. last (str_split CHR '' '' (strip val))) (filter (str_contains ''per core'') lines)"

definition ipex_probe_body :: "handler \<Rightarrow> world \<Rightarrow> error option \<times> handler \<times> world" where
  \<comment> \<open>the body of the \<^verbatim>\<open>try\<close> (lines 42 to 53): the exception it stopped at, if any, with
      the handler and the world as they were at that point\<close>
  "ipex_probe_body h w =
     (case intel_pytorch_extension w of
        None \<Rightarrow> (Some (Raised ''import intel_pytorch_extension''), h, w)
      | Some ipex \<Rightarrow>
          (case DEVICE ipex of
             None \<Rightarrow> (Some (Raised ''ipex.DEVICE''), h, w)
           | Some name \<Rightarrow>
               (case torch_device w name of
                  Inl e \<Rightarrow> (Some e, h, w)
                | Inr d \<Rightarrow>
                    (let h1 = h\<lparr>device := Some d\<rparr>;
                         enable = (environ w ''IPEX_DISABLE_MIXED_PRECISION'' = None)
                     in if enable \<and> enable_auto_mix_precision_raises ipex
                        then (Some (Raised ''ipex.enable_auto_mix_precision''), h1, w)
                        else
                          (let w1 = (if enable then w\<lparr>amp_enabled := True\<rparr> else w)
                           in case lscpu w1 of
                                None \<Rightarrow> (Some (Raised ''os.popen''), h1, w1)
                              | Some lines \<Rightarrow>
                                  (case per_core_of lines of
                                     [] \<Rightarrow>
                                       (None, h1,
                                        w1\<lparr>environ := (environ w1)(''KMP_AFFINITY'' \<mapsto> KMP_compact_1_0)\<rparr>)
                                   | tok # _ \<Rightarrow>
                                       (case py_int (int_max_str_digits w1) tok of
                                          None \<Rightarrow> (Some (Raised ''int''), h1, w1)
                                        | Some n \<Rightarrow>
                                            if n = 1
                                            then (None, h1,
                                                  w1\<lparr>environ := (environ w1)(''KMP_AFFINITY'' \<mapsto> KMP_compact)\<rparr>)
                                            else (None, h1,
                                                  w1\<lparr>environ := (environ w1)(''KMP_AFFINITY'' \<mapsto> KMP_compact_1_0)\<rparr>))))))))"

definition ipex_probe :: "handler \<Rightarrow> world \<Rightarrow> handler \<times> world" where
  \<comment> \<open>\<^verbatim>\<open>try: ... except: pass\<close>: whatever was raised is dropped, what was done stays\<close>
  "ipex_probe h w = snd (ipex_probe_body h w)"

definition ipex_device :: "world \<Rightarrow> torch_device option" where
  \<comment> \<open>the device line 43 assigns, when the probe gets past that line: the library is
      there, it has a \<^verbatim>\<open>DEVICE\<close>, and \<^verbatim>\<open>torch.device\<close> accepts it\<close>
  "ipex_device w =
     (case intel_pytorch_extension w of
        None \<Rightarrow> None
      | Some ipex \<Rightarrow>
          (case DEVICE ipex of
             None \<Rightarrow> None
           | Some name \<Rightarrow> (case torch_device w name of Inl e \<Rightarrow> None | Inr d \<Rightarrow> Some d)))"

text \<open>
  Modelled from the spec: \<^verbatim>\<open>list_classes_from_module\<close> of \<^verbatim>\<open>ts/utils/util.py\<close>, which is
  not among the sources. The spec: "enumerate all model-class definitions declared directly
  in that module (not imported from elsewhere)".
\<close>

definition list_classes_from_module :: "pymodule \<Rightarrow> pyclass list" where
  "list_classes_from_module m =
     concat (map (\<lambda>(name, mem).
                    case mem of
                      ClassMember c \<Rightarrow> (if cls_module c = mod_name m then [c] else [])
                    | OtherMember \<Rightarrow> [])
                 (members m))"

definition repr_class :: "pyclass \<Rightarrow> string" where
  "repr_class c = ''<class '' @ [CHR 0x27] @ cls_module c @ ''.'' @ cls_name c @ [CHR 0x27] @ ''>''"

fun join_comma :: "string list \<Rightarrow> string" where
  "join_comma [] = []"
| "join_comma [s] = s"
| "join_comma (s # t # ss) = s @ '', '' @ join_comma (t # ss)"

definition repr_classes :: "pyclass list \<Rightarrow> string" where
  \<comment> \<open>\<^verbatim>\<open>"{}".format(model_class_definitions)\<close>\<close>
  "repr_classes cs = ''['' @ join_comma (map repr_class cs) @ '']''"

definition expected_one_class :: "pyclass list \<Rightarrow> error" where
  "expected_one_class cs =
     ValueError (''Expected only one class as model definition. '' @ repr_classes cs)"

definition read_model ::
  "handler \<Rightarrow> deployment_context \<Rightarrow> world \<Rightarrow> (error + model_handle) \<times> handler \<times> world" where
  \<comment> \<open>lines 63 to 80, once the artifact is there: the object assigned to \<^verbatim>\<open>self.model\<close>;
      \<^verbatim>\<open>self.manifest\<close> is \<^verbatim>\<open>ctx.manifest\<close> since line 32\<close>
  "read_model h ctx w =
     (let map_location = map_location_of w;
          model_pt_path = artifact_path ctx;
          model_file = model_file_of ctx
      in if isfile w (model_def_path ctx)
         then
           (case import_module w (hd (str_split CHR ''.'' model_file)) of
              None \<Rightarrow> (Inl (Raised ''importlib.import_module''), h, w)
            | Some module \<Rightarrow>
                (let model_class_definitions = list_classes_from_module module
                 in case model_class_definitions of
                      [model_class] \<Rightarrow>
                        (case torch_load w model_pt_path map_location of
                           None \<Rightarrow> (Inl (Raised ''torch.load''), h, w)
                         | Some sd \<Rightarrow>
                             (case instantiate w model_class of
                                None \<Rightarrow> (Inl (Raised ''model_class''), h, w)
                              | Some m \<Rightarrow>
                                  (case load_state_dict w m sd of
                                     None \<Rightarrow> (Inl (Raised ''load_state_dict''), h\<lparr>model := Some m\<rparr>, w)
                                   | Some m' \<Rightarrow> (Inr m', h\<lparr>model := Some m'\<rparr>, w))))
                    | _ \<Rightarrow> (Inl (expected_one_class model_class_definitions), h, w)))
         else
           (let w1 = logger DEBUG
                       ''No model file found for eager mode, trying to load torchscript model'' w
            in case torch_jit_load w1 model_pt_path map_location of
                 None \<Rightarrow> (Inl (Raised ''torch.jit.load''), h, w1)
               | Some m \<Rightarrow> (Inr m, h\<lparr>model := Some m\<rparr>, w1)))"

definition load_model ::
  "handler \<Rightarrow> deployment_context \<Rightarrow> world \<Rightarrow> (error + unit) \<times> handler \<times> world" where
  \<comment> \<open>lines 57 to 84. \<^verbatim>\<open>to\<close> and \<^verbatim>\<open>eval\<close> act in place on the object \<^verbatim>\<open>self.model\<close> holds;
      \<^verbatim>\<open>self.device\<close> is a device since line 37 (the None branch is not reached from
      \<^verbatim>\<open>initialize\<close>)\<close>
  "load_model h ctx w =
     (if \<not> isfile w (artifact_path ctx)
      then (Inl (RuntimeError ''Missing the model.pt file''), h, w)
      else
        (case read_model h ctx w of
           (Inl e, h1, w1) \<Rightarrow> (Inl e, h1, w1)
         | (Inr m, h1, w1) \<Rightarrow>
             (case device h1 of
                None \<Rightarrow> (Inl (Raised ''Module.to''), h1, w1)
              | Some d \<Rightarrow>
                  (case Module_to w1 m d of
                     None \<Rightarrow> (Inl (Raised ''Module.to''), h1, w1)
                   | Some moved \<Rightarrow>
                       (Inr (),
                        h1\<lparr>model := Some (Module_eval moved)\<rparr>,
                        logger DEBUG (''Model file '' @ artifact_path ctx @ '' loaded successfully'') w1)))))"

definition load_mapping ::
  "handler \<Rightarrow> deployment_context \<Rightarrow> world \<Rightarrow> (error + unit) \<times> handler \<times> world" where
  \<comment> \<open>lines 86 to 93\<close>
  "load_mapping h ctx w =
     (if isfile w (mapping_file_path ctx)
      then (case json_load w (mapping_file_path ctx) of
              None \<Rightarrow> (Inl (Raised ''json.load''), h, w)
            | Some j \<Rightarrow> (Inr (), h\<lparr>mapping := Some j\<rparr>, w))
      else (Inr (), h,
            logger WARNING
              ''Missing the index_to_name.json file. Inference output will not include class name.'' w))"

definition select_device ::
  "handler \<Rightarrow> deployment_context \<Rightarrow> world \<Rightarrow> (error + unit) \<times> handler \<times> world" where
  \<comment> \<open>lines 32 to 55: device resolution, then the vendor probe on the cpu path only\<close>
  "select_device h ctx w =
     (case resolve_device h ctx w of
        (Inl e, h1) \<Rightarrow> (Inl e, h1, w)
      | (Inr u, h1) \<Rightarrow>
          (if map_location_of w = ''cpu''
           then (Inr (), fst (ipex_probe h1 w), snd (ipex_probe h1 w))
           else (Inr (), h1, w)))"

definition load_and_finish ::
  "handler \<Rightarrow> deployment_context \<Rightarrow> world \<Rightarrow> (error + unit) \<times> handler \<times> world" where
  \<comment> \<open>lines 57 to 95\<close>
  "load_and_finish h ctx w =
     (case load_model h ctx w of
        (Inl e, h3, w3) \<Rightarrow> (Inl e, h3, w3)
      | (Inr u, h3, w3) \<Rightarrow>
          (case load_mapping h3 ctx w3 of
             (Inl e, h4, w4) \<Rightarrow> (Inl e, h4, w4)
           | (Inr u', h4, w4) \<Rightarrow> (Inr (), h4\<lparr>initialized := True\<rparr>, w4)))"

definition initialize ::
  "handler \<Rightarrow> deployment_context \<Rightarrow> world \<Rightarrow> (error + unit) \<times> handler \<times> world" where
  "initialize h ctx w =
     (case select_device h ctx w of
        (Inl e, h2, w2) \<Rightarrow> (Inl e, h2, w2)
      | (Inr u, h2, w2) \<Rightarrow> load_and_finish h2 ctx w2)"

text \<open>
  The three pipeline stages of the base class are abstract methods whose body is
  \<^verbatim>\<open>pass\<close>: reached through \<^verbatim>\<open>super()\<close>, each returns None.
\<close>

definition preprocess :: "handler \<Rightarrow> 'a \<Rightarrow> error + json" where
  "preprocess h data = Inr JNull"

definition inference :: "handler \<Rightarrow> 'a \<Rightarrow> error + json" where
  "inference h data = Inr JNull"

definition postprocess :: "handler \<Rightarrow> 'a \<Rightarrow> error + json" where
  "postprocess h data = Inr JNull"

section \<open>Example deployments\<close>

definition ctx_scripted :: deployment_context where
  \<comment> \<open>model_dir /m, a manifest with serializedFile only, no gpu_id\<close>
  "ctx_scripted =
     \<lparr>ctx_manifest = \<lparr>manifest_model = \<lparr>serializedFile = ''model.pt'', modelFile = None\<rparr>\<rparr>,
      system_properties = \<lparr>model_dir = ''/m'', gpu_id = None\<rparr>\<rparr>"

definition ctx_eager :: deployment_context where
  \<comment> \<open>the same with a model-definition file and gpu_id 0\<close>
  "ctx_eager =
     \<lparr>ctx_manifest = \<lparr>manifest_model = \<lparr>serializedFile = ''model.pt'', modelFile = Some ''model.py''\<rparr>\<rparr>,
      system_properties = \<lparr>model_dir = ''/m'', gpu_id = Some 0\<rparr>\<rparr>"

definition Net :: pyclass where
  "Net = \<lparr>cls_module = ''model'', cls_name = ''Net''\<rparr>"

definition Net2 :: pyclass where
  "Net2 = \<lparr>cls_module = ''model'', cls_name = ''Net2''\<rparr>"

definition model_py :: pymodule where
  \<comment> \<open>a module that declares one class and imports another\<close>
  "model_py =
     \<lparr>mod_name = ''model'',
      members = [(''Module'', ClassMember \<lparr>cls_module = ''torch.nn.modules.module'', cls_name = ''Module''\<rparr>),
                 (''Net'', ClassMember Net),
                 (''torch'', OtherMember)]\<rparr>"

definition model_py_two :: pymodule where
  \<comment> \<open>a module that declares two classes\<close>
  "model_py_two =
     \<lparr>mod_name = ''model'',
      members = [(''Net'', ClassMember Net), (''Net2'', ClassMember Net2), (''torch'', OtherMember)]\<rparr>"

definition saved_params :: state_dict where
  "saved_params = [(''fc.weight'', ''w0''), (''fc.bias'', ''b0'')]"

definition fresh_Net :: model_handle where
  "fresh_Net =
     \<lparr>kind = EagerModel Net, params = [(''fc.weight'', ''init''), (''fc.bias'', ''init'')],
      resident = TorchDevice ''cpu'', training = True\<rparr>"

definition scripted_model :: model_handle where
  "scripted_model =
     \<lparr>kind = ScriptModule ''/m/model.pt'', params = saved_params,
      resident = TorchDevice ''cpu'', training = True\<rparr>"

definition labels :: json where
  "labels = JObj [(''0'', JStr ''cat''), (''1'', JStr ''dog'')]"

definition ipex_lib :: ipex_module where
  "ipex_lib = \<lparr>DEVICE = Some ''xpu'', enable_auto_mix_precision_raises = False\<rparr>"

definition host_bare :: world where
  \<comment> \<open>no accelerator, no vendor library, an empty model_dir; the library knows the device
      types cpu, cuda and xpu\<close>
  "host_bare =
     \<lparr>cuda_is_available = False,
      torch_device_rejects = (\<lambda>s. takeWhile (\<lambda>c. c \<noteq> CHR '':'') s \<notin> set [''cpu'', ''cuda'', ''xpu'']),
      intel_pytorch_extension = None, amp_enabled = False,
      environ = Map.empty, lscpu = Some [], int_max_str_digits = 4300, isfile = (\<lambda>p. False),
      import_module = (\<lambda>name. None), torch_load = (\<lambda>p loc. None), instantiate = (\<lambda>c. None),
      load_state_dict_raises = (\<lambda>m sd. False), torch_jit_load = (\<lambda>p loc. None),
      to_raises = (\<lambda>m d. False), json_load = (\<lambda>p. None), log = []\<rparr>"

definition host_scripted :: world where
  \<comment> \<open>/m/model.pt is a self-contained compiled artifact\<close>
  "host_scripted =
     host_bare\<lparr>isfile := (\<lambda>p. p = ''/m/model.pt''),
               torch_jit_load := (\<lambda>p loc. if p = ''/m/model.pt'' then Some scripted_model else None)\<rparr>"

definition host_eager :: world where
  \<comment> \<open>/m/model.pt is a saved state dict and /m/model.py defines the class\<close>
  "host_eager =
     host_bare\<lparr>isfile := (\<lambda>p. p = ''/m/model.pt'' \<or> p = ''/m/model.py''),
               import_module := (\<lambda>name. if name = ''model'' then Some model_py else None),
               torch_load := (\<lambda>p loc. if p = ''/m/model.pt'' then Some saved_params else None),
               instantiate := (\<lambda>c. if c = Net then Some fresh_Net else None)\<rparr>"

definition host_def_only :: world where
  \<comment> \<open>as \<open>host_eager\<close>, but /m/model.pt is missing\<close>
  "host_def_only = host_eager\<lparr>isfile := (\<lambda>p. p = ''/m/model.py'')\<rparr>"

definition host_two_classes :: world where
  \<comment> \<open>as \<open>host_eager\<close>, but /m/model.py declares two classes\<close>
  "host_two_classes =
     host_eager\<lparr>import_module := (\<lambda>name. if name = ''model'' then Some model_py_two else None)\<rparr>"

definition host_mismatch :: world where
  \<comment> \<open>as \<open>host_eager\<close>, but the saved state dict does not fit the class\<close>
  "host_mismatch = host_eager\<lparr>load_state_dict_raises := (\<lambda>m sd. True)\<rparr>"

definition host_labels :: world where
  \<comment> \<open>as \<open>host_scripted\<close>, with /m/index_to_name.json\<close>
  "host_labels =
     host_scripted\<lparr>isfile := (\<lambda>p. p = ''/m/model.pt'' \<or> p = ''/m/index_to_name.json''),
                   json_load := (\<lambda>p. if p = ''/m/index_to_name.json'' then Some labels else None)\<rparr>"

definition host_cuda :: world where
  \<comment> \<open>as \<open>host_scripted\<close>, with an accelerator\<close>
  "host_cuda = host_scripted\<lparr>cuda_is_available := True\<rparr>"


definition host_ipex :: world where
  \<comment> \<open>the vendor library is installed; lscpu reports two threads per core\<close>
  "host_ipex =
     host_scripted\<lparr>intel_pytorch_extension := Some ipex_lib,
                   lscpu := Some [''Thread(s) per core:                  2'' @ [CHR 0x0A],
                                  ''Core(s) per socket:                  8'' @ [CHR 0x0A]]\<rparr>"

definition host_ipex_one :: world where
  \<comment> \<open>as \<open>host_ipex\<close>, with one thread per core\<close>
  "host_ipex_one =
     host_ipex\<lparr>lscpu := Some [''Thread(s) per core:                  1'' @ [CHR 0x0A]]\<rparr>"

definition host_ipex_tab :: world where
  \<comment> \<open>as \<open>host_ipex\<close>, with a tab before the number of threads\<close>
  "host_ipex_tab =
     host_ipex\<lparr>lscpu := Some [''Thread(s) per core:'' @ [CHR 0x09] @ ''2'' @ [CHR 0x0A]]\<rparr>"

definition host_ipex_dash :: world where
  \<comment> \<open>as \<open>host_ipex\<close>, with no number of threads reported\<close>
  "host_ipex_dash =
     host_ipex\<lparr>lscpu := Some [''Thread(s) per core:                  -'' @ [CHR 0x0A]]\<rparr>"

definition host_ipex_amp_fails :: world where
  \<comment> \<open>as \<open>host_ipex\<close>, but enabling mixed precision raises\<close>
  "host_ipex_amp_fails =
     host_ipex\<lparr>intel_pytorch_extension := Some (ipex_lib\<lparr>enable_auto_mix_precision_raises := True\<rparr>)\<rparr>"

definition host_ipex_disabled :: world where
  \<comment> \<open>as \<open>host_ipex_one\<close>, with the override set in the environment\<close>
  "host_ipex_disabled =
     host_ipex_one\<lparr>environ := [''IPEX_DISABLE_MIXED_PRECISION'' \<mapsto> ''1'']\<rparr>"

definition host_ipex_unknown :: world where
  \<comment> \<open>as \<open>host_ipex\<close>, but the library names a device type that torch does not know\<close>
  "host_ipex_unknown =
     host_ipex\<lparr>intel_pytorch_extension := Some (ipex_lib\<lparr>DEVICE := Some ''dpcpp''\<rparr>)\<rparr>"

section \<open>Frame lemmas\<close>

lemma str_split_not_Nil: "str_split sep s \<noteq> []"
  by (induction s) (auto split: list.splits)

lemma run_triple: "fst r = x \<Longrightarrow> r = (x, fst (snd r), snd (snd r))"
  by (cases r) simp

lemma BaseHandler_init_fields:
  "model BaseHandler_init = None" "mapping BaseHandler_init = None" "device BaseHandler_init = None"
  "initialized BaseHandler_init = False" "manifest BaseHandler_init = None"
  by (simp_all add: BaseHandler_init_def)

lemma map_location_cpu: "(map_location_of w = ''cpu'') = (\<not> cuda_is_available w)"
  by (simp add: map_location_of_def)


lemma torch_device_cpu: "torch_device w ''cpu'' = Inr (TorchDevice ''cpu'')"
  by (simp add: torch_device_def)

lemma torch_device_None: "torch_device w ''cuda:None'' = Inl (Raised ''torch.device'')"
  by (simp add: torch_device_def device_index_text_def isdigit_def)

lemma device_string_cpu: "\<not> cuda_is_available w \<Longrightarrow> device_string ctx w = ''cpu''"
  by (simp add: device_string_def map_location_of_def)

lemma device_string_cuda:
  "cuda_is_available w \<Longrightarrow> device_string ctx w = ''cuda:'' @ py_str (gpu_id (system_properties ctx))"
  by (simp add: device_string_def map_location_of_def)

lemma resolve_device_rejected:
  "torch_device w (device_string ctx w) = Inl e \<Longrightarrow>
   resolve_device h ctx w = (Inl e, h\<lparr>manifest := Some (ctx_manifest ctx)\<rparr>)"
  by (simp add: resolve_device_def Let_def)

lemma resolve_device_accepted:
  "torch_device w (device_string ctx w) = Inr d \<Longrightarrow>
   resolve_device h ctx w = (Inr (), h\<lparr>manifest := Some (ctx_manifest ctx), device := Some d\<rparr>)"
  by (simp add: resolve_device_def Let_def)

lemma ipex_probe_frame:
  "cuda_is_available (snd (ipex_probe h w)) = cuda_is_available w"
  "torch_device_rejects (snd (ipex_probe h w)) = torch_device_rejects w"
  "intel_pytorch_extension (snd (ipex_probe h w)) = intel_pytorch_extension w"
  "lscpu (snd (ipex_probe h w)) = lscpu w"
  "int_max_str_digits (snd (ipex_probe h w)) = int_max_str_digits w"
  "isfile (snd (ipex_probe h w)) = isfile w"
  "import_module (snd (ipex_probe h w)) = import_module w"
  "torch_load (snd (ipex_probe h w)) = torch_load w"
  "instantiate (snd (ipex_probe h w)) = instantiate w"
  "load_state_dict_raises (snd (ipex_probe h w)) = load_state_dict_raises w"
  "torch_jit_load (snd (ipex_probe h w)) = torch_jit_load w"
  "to_raises (snd (ipex_probe h w)) = to_raises w"
  "json_load (snd (ipex_probe h w)) = json_load w"
  "log (snd (ipex_probe h w)) = log w"
  by (simp_all add: ipex_probe_def ipex_probe_body_def Let_def
        split: option.splits list.splits sum.splits)

lemma ipex_probe_handler:
  "fst (ipex_probe h w) = h\<lparr>device := (case ipex_device w of None \<Rightarrow> device h | Some d \<Rightarrow> Some d)\<rparr>"
  by (simp add: ipex_probe_def ipex_probe_body_def ipex_device_def Let_def
        split: option.splits list.splits sum.splits)

lemma select_device_rejected:
  "torch_device w (device_string ctx w) = Inl e \<Longrightarrow>
   select_device h ctx w = (Inl e, h\<lparr>manifest := Some (ctx_manifest ctx)\<rparr>, w)"
  by (simp add: select_device_def resolve_device_rejected)

lemma select_device_cuda:
  "cuda_is_available w \<Longrightarrow>
   select_device h ctx w = (fst (resolve_device h ctx w), snd (resolve_device h ctx w), w)"
  by (cases "torch_device w (device_string ctx w)")
     (simp_all add: select_device_def resolve_device_def Let_def map_location_of_def)

lemma select_device_cpu:
  "\<not> cuda_is_available w \<Longrightarrow>
   select_device h ctx w
     = (Inr (), snd (ipex_probe_body (h\<lparr>manifest := Some (ctx_manifest ctx),
                                        device := Some (TorchDevice ''cpu'')\<rparr>) w))"
  by (simp add: select_device_def resolve_device_def Let_def device_string_cpu torch_device_cpu
        map_location_of_def ipex_probe_def)

lemma select_device_accepted:
  assumes "torch_device w (device_string ctx w) = Inr d"
  shows "fst (select_device h ctx w) = Inr ()"
    and "fst (snd (select_device h ctx w))
           = h\<lparr>manifest := Some (ctx_manifest ctx),
               device := Some (if cuda_is_available w then d
                               else (case ipex_device w of None \<Rightarrow> d | Some d' \<Rightarrow> d'))\<rparr>"
  using assms
  by (simp_all add: select_device_def resolve_device_def Let_def map_location_of_def
        ipex_probe_handler split: option.splits)

lemma select_device_frame:
  "cuda_is_available (snd (snd (select_device h ctx w))) = cuda_is_available w"
  "torch_device_rejects (snd (snd (select_device h ctx w))) = torch_device_rejects w"
  "intel_pytorch_extension (snd (snd (select_device h ctx w))) = intel_pytorch_extension w"
  "isfile (snd (snd (select_device h ctx w))) = isfile w"
  "import_module (snd (snd (select_device h ctx w))) = import_module w"
  "torch_load (snd (snd (select_device h ctx w))) = torch_load w"
  "instantiate (snd (snd (select_device h ctx w))) = instantiate w"
  "load_state_dict_raises (snd (snd (select_device h ctx w))) = load_state_dict_raises w"
  "torch_jit_load (snd (snd (select_device h ctx w))) = torch_jit_load w"
  "to_raises (snd (snd (select_device h ctx w))) = to_raises w"
  "json_load (snd (snd (select_device h ctx w))) = json_load w"
  "log (snd (snd (select_device h ctx w))) = log w"
  by (cases "torch_device w (device_string ctx w)";
      simp add: select_device_def resolve_device_def Let_def ipex_probe_frame)+

lemma select_device_map_location:
  "map_location_of (snd (snd (select_device h ctx w))) = map_location_of w"
  by (simp add: map_location_of_def select_device_frame)

lemma select_device_handler:
  "model (fst (snd (select_device h ctx w))) = model h"
  "mapping (fst (snd (select_device h ctx w))) = mapping h"
  "initialized (fst (snd (select_device h ctx w))) = initialized h"
  "manifest (fst (snd (select_device h ctx w))) = Some (ctx_manifest ctx)"
  by (cases "torch_device w (device_string ctx w)";
      simp add: select_device_def resolve_device_def Let_def ipex_probe_handler)+

lemma select_device_device:
  "device (fst (snd (select_device h ctx w)))
     = (case torch_device w (device_string ctx w) of
          Inl e \<Rightarrow> device h
        | Inr d \<Rightarrow> Some (if cuda_is_available w then d
                         else (case ipex_device w of None \<Rightarrow> d | Some d' \<Rightarrow> d')))"
  by (cases "torch_device w (device_string ctx w)")
     (simp_all add: select_device_def resolve_device_def Let_def map_location_of_def
        ipex_probe_handler split: option.splits)

lemma read_model_world:
  "cuda_is_available (snd (snd (read_model h ctx w))) = cuda_is_available w"
  "torch_device_rejects (snd (snd (read_model h ctx w))) = torch_device_rejects w"
  "intel_pytorch_extension (snd (snd (read_model h ctx w))) = intel_pytorch_extension w"
  "amp_enabled (snd (snd (read_model h ctx w))) = amp_enabled w"
  "environ (snd (snd (read_model h ctx w))) = environ w"
  "isfile (snd (snd (read_model h ctx w))) = isfile w"
  "json_load (snd (snd (read_model h ctx w))) = json_load w"
  "to_raises (snd (snd (read_model h ctx w))) = to_raises w"
  unfolding read_model_def Let_def logger_def
  by (auto split: option.splits list.splits)

lemma read_model_handler:
  "device (fst (snd (read_model h ctx w))) = device h"
  "mapping (fst (snd (read_model h ctx w))) = mapping h"
  "initialized (fst (snd (read_model h ctx w))) = initialized h"
  "manifest (fst (snd (read_model h ctx w))) = manifest h"
  unfolding read_model_def Let_def
  by (auto split: option.splits list.splits)

lemma read_model_assigned:
  "read_model h ctx w = (Inr m, h1, w1) \<Longrightarrow> model h1 = Some m"
  unfolding read_model_def Let_def
  by (auto split: option.splits list.splits if_splits)

lemma load_model_world:
  "cuda_is_available (snd (snd (load_model h ctx w))) = cuda_is_available w"
  "torch_device_rejects (snd (snd (load_model h ctx w))) = torch_device_rejects w"
  "intel_pytorch_extension (snd (snd (load_model h ctx w))) = intel_pytorch_extension w"
  "amp_enabled (snd (snd (load_model h ctx w))) = amp_enabled w"
  "environ (snd (snd (load_model h ctx w))) = environ w"
  "isfile (snd (snd (load_model h ctx w))) = isfile w"
  "json_load (snd (snd (load_model h ctx w))) = json_load w"
proof -
  obtain r h1 w1 where rm: "read_model h ctx w = (r, h1, w1)"
    by (cases "read_model h ctx w")
  have "cuda_is_available w1 = cuda_is_available w"
    "torch_device_rejects w1 = torch_device_rejects w"
    "intel_pytorch_extension w1 = intel_pytorch_extension w"
    "amp_enabled w1 = amp_enabled w" "environ w1 = environ w"
    "isfile w1 = isfile w" "json_load w1 = json_load w"
    using read_model_world(1-7) [of h ctx w] rm by simp_all
  then show "cuda_is_available (snd (snd (load_model h ctx w))) = cuda_is_available w"
    "torch_device_rejects (snd (snd (load_model h ctx w))) = torch_device_rejects w"
    "intel_pytorch_extension (snd (snd (load_model h ctx w))) = intel_pytorch_extension w"
    "amp_enabled (snd (snd (load_model h ctx w))) = amp_enabled w"
    "environ (snd (snd (load_model h ctx w))) = environ w"
    "isfile (snd (snd (load_model h ctx w))) = isfile w"
    "json_load (snd (snd (load_model h ctx w))) = json_load w"
    using rm
    by (simp_all add: load_model_def logger_def split: sum.splits option.splits)
qed

lemma load_model_handler:
  "device (fst (snd (load_model h ctx w))) = device h"
  "mapping (fst (snd (load_model h ctx w))) = mapping h"
  "initialized (fst (snd (load_model h ctx w))) = initialized h"
  "manifest (fst (snd (load_model h ctx w))) = manifest h"
proof -
  obtain r h1 w1 where rm: "read_model h ctx w = (r, h1, w1)"
    by (cases "read_model h ctx w")
  have "device h1 = device h" "mapping h1 = mapping h" "initialized h1 = initialized h"
    "manifest h1 = manifest h"
    using read_model_handler [of h ctx w] rm by simp_all
  then show "device (fst (snd (load_model h ctx w))) = device h"
    "mapping (fst (snd (load_model h ctx w))) = mapping h"
    "initialized (fst (snd (load_model h ctx w))) = initialized h"
    "manifest (fst (snd (load_model h ctx w))) = manifest h"
    using rm
    by (simp_all add: load_model_def split: sum.splits option.splits)
qed


lemma load_model_success:
  assumes "load_model h ctx w = (Inr u, h1, w1)"
  shows "\<exists>m d. model h1 = Some m \<and> device h1 = Some d \<and> resident m = d \<and> training m = False"
proof -
  obtain r h0 w0 where rm: "read_model h ctx w = (r, h0, w0)"
    by (cases "read_model h ctx w")
  show ?thesis
    using assms rm
    by (auto simp: load_model_def Module_to_def Module_eval_def
          split: if_splits sum.splits option.splits)
qed

lemma load_mapping_handler:
  "model (fst (snd (load_mapping h ctx w))) = model h"
  "device (fst (snd (load_mapping h ctx w))) = device h"
  "initialized (fst (snd (load_mapping h ctx w))) = initialized h"
  "manifest (fst (snd (load_mapping h ctx w))) = manifest h"
  unfolding load_mapping_def
  by (auto split: option.splits)

lemma load_mapping_world:
  "cuda_is_available (snd (snd (load_mapping h ctx w))) = cuda_is_available w"
  "torch_device_rejects (snd (snd (load_mapping h ctx w))) = torch_device_rejects w"
  "intel_pytorch_extension (snd (snd (load_mapping h ctx w))) = intel_pytorch_extension w"
  "amp_enabled (snd (snd (load_mapping h ctx w))) = amp_enabled w"
  "environ (snd (snd (load_mapping h ctx w))) = environ w"
  unfolding load_mapping_def logger_def
  by (auto split: option.splits)

lemma load_and_finish_cases:
  obtains
    (model_failed) e h3 w3 where
      "load_model h ctx w = (Inl e, h3, w3)" "load_and_finish h ctx w = (Inl e, h3, w3)"
  | (mapping_failed) e h3 w3 h4 w4 where
      "load_model h ctx w = (Inr (), h3, w3)" "load_mapping h3 ctx w3 = (Inl e, h4, w4)"
      "load_and_finish h ctx w = (Inl e, h4, w4)"
  | (succeeded) h3 w3 h4 w4 where
      "load_model h ctx w = (Inr (), h3, w3)" "load_mapping h3 ctx w3 = (Inr (), h4, w4)"
      "load_and_finish h ctx w = (Inr (), h4\<lparr>initialized := True\<rparr>, w4)"
proof -
  obtain r3 h3 w3 where lm: "load_model h ctx w = (r3, h3, w3)"
    by (cases "load_model h ctx w")
  obtain r4 h4 w4 where mp: "load_mapping h3 ctx w3 = (r4, h4, w4)"
    by (cases "load_mapping h3 ctx w3")
  show thesis
  proof (cases r3)
    case (Inl e)
    with lm have "load_and_finish h ctx w = (Inl e, h3, w3)"
      by (simp add: load_and_finish_def)
    with lm Inl show thesis
      by (auto intro: model_failed)
  next
    case (Inr u)
    show thesis
    proof (cases r4)
      case (Inl e)
      with lm mp Inr have "load_and_finish h ctx w = (Inl e, h4, w4)"
        by (simp add: load_and_finish_def)
      with lm mp Inr Inl show thesis
        by (auto intro: mapping_failed)
    next
      case (Inr u')
      with lm mp \<open>r3 = Inr u\<close> have "load_and_finish h ctx w = (Inr (), h4\<lparr>initialized := True\<rparr>, w4)"
        by (simp add: load_and_finish_def)
      with lm mp \<open>r3 = Inr u\<close> Inr show thesis
        by (auto intro: succeeded)
    qed
  qed
qed

lemma initialize_cases:
  obtains
    (device_failed) e h2 w2 where
      "select_device h ctx w = (Inl e, h2, w2)" "initialize h ctx w = (Inl e, h2, w2)"
  | (model_failed) e h2 w2 h3 w3 where
      "select_device h ctx w = (Inr (), h2, w2)" "load_model h2 ctx w2 = (Inl e, h3, w3)"
      "initialize h ctx w = (Inl e, h3, w3)"
  | (mapping_failed) e h2 w2 h3 w3 h4 w4 where
      "select_device h ctx w = (Inr (), h2, w2)" "load_model h2 ctx w2 = (Inr (), h3, w3)"
      "load_mapping h3 ctx w3 = (Inl e, h4, w4)" "initialize h ctx w = (Inl e, h4, w4)"
  | (succeeded) h2 w2 h3 w3 h4 w4 where
      "select_device h ctx w = (Inr (), h2, w2)" "load_model h2 ctx w2 = (Inr (), h3, w3)"
      "load_mapping h3 ctx w3 = (Inr (), h4, w4)"
      "initialize h ctx w = (Inr (), h4\<lparr>initialized := True\<rparr>, w4)"
proof -
  obtain r2 h2 w2 where sd: "select_device h ctx w = (r2, h2, w2)"
    by (cases "select_device h ctx w")
  show thesis
  proof (cases r2)
    case (Inl e)
    with sd have "initialize h ctx w = (Inl e, h2, w2)"
      by (simp add: initialize_def)
    with sd Inl show thesis
      by (auto intro: device_failed)
  next
    case (Inr u)
    with sd have init: "initialize h ctx w = load_and_finish h2 ctx w2"
      and sd': "select_device h ctx w = (Inr (), h2, w2)"
      by (simp_all add: initialize_def)
    show thesis
    proof (cases rule: load_and_finish_cases [of h2 ctx w2])
      case (model_failed e h3 w3)
      with init sd' show thesis
        by (auto intro: that(2))
    next
      case (mapping_failed e h3 w3 h4 w4)
      with init sd' show thesis
        by (auto intro: that(3))
    next
      case (succeeded h3 w3 h4 w4)
      with init sd' show thesis
        by (auto intro: that(4))
    qed
  qed
qed

lemma initialize_device:
  "device (fst (snd (initialize h ctx w))) = device (fst (snd (select_device h ctx w)))"
proof (cases rule: initialize_cases [of h ctx w])
  case (device_failed e h2 w2)
  then show ?thesis
    by simp
next
  case (model_failed e h2 w2 h3 w3)
  then show ?thesis
    using load_model_handler(1) [of h2 ctx w2] by simp
next
  case (mapping_failed e h2 w2 h3 w3 h4 w4)
  then show ?thesis
    using load_model_handler(1) [of h2 ctx w2] load_mapping_handler(2) [of h3 ctx w3] by simp
next
  case (succeeded h2 w2 h3 w3 h4 w4)
  then show ?thesis
    using load_model_handler(1) [of h2 ctx w2] load_mapping_handler(2) [of h3 ctx w3] by simp
qed



lemma initialize_rejected:
  assumes "torch_device w (device_string ctx w) = Inl e"
  shows "initialize h ctx w = (Inl e, h\<lparr>manifest := Some (ctx_manifest ctx)\<rparr>, w)"
  by (simp add: initialize_def select_device_rejected [OF assms])

section \<open>The example deployments, run\<close>

lemma scripted_run: "fst (initialize BaseHandler_init ctx_scripted host_scripted) = Inr ()"
  by code_simp

lemma scripted_on_ipex_run: "fst (initialize BaseHandler_init ctx_scripted host_ipex) = Inr ()"
  by code_simp

lemma eager_run: "fst (initialize BaseHandler_init ctx_eager host_eager) = Inr ()"
  by code_simp

lemma labels_run: "fst (initialize BaseHandler_init ctx_scripted host_labels) = Inr ()"
  by code_simp

section \<open>Missing artifact\<close>




section \<open>Successful initialization\<close>

text \<open>
  C5. Whenever \<open>initialize\<close> returns normally, the handler holds a model handle that is
  in evaluation mode and resident on the device the handler recorded, and the
  \<open>initialized\<close> flag is set. The proof covers both branches of the model format (state
  dict loaded onto the one class of the model file, or a self-contained compiled artifact).
\<close>

theorem initialize_success_eval_on_device:
  assumes "initialize h ctx w = (Inr (), h', w')"
  shows "\<exists>m d. model h' = Some m \<and> device h' = Some d \<and> resident m = d
               \<and> training m = False \<and> initialized h' = True"
proof (cases rule: initialize_cases [of h ctx w])
  case (device_failed e h2 w2)
  with assms show ?thesis
    by simp
next
  case (model_failed e h2 w2 h3 w3)
  with assms show ?thesis
    by simp
next
  case (mapping_failed e h2 w2 h3 w3 h4 w4)
  with assms show ?thesis
    by simp
next
  case (succeeded h2 w2 h3 w3 h4 w4)
  from load_model_success [OF succeeded(2)]
  obtain m d where md: "model h3 = Some m" "device h3 = Some d" "resident m = d" "training m = False"
    by blast
  have "model h4 = model h3" "device h4 = device h3"
    using load_mapping_handler(1,2) [of h3 ctx w3] succeeded(3) by simp_all
  moreover have "h' = h4\<lparr>initialized := True\<rparr>"
    using assms succeeded(4) by simp
  ultimately show ?thesis
    using md by simp
qed

theorem initialize_success_eval_on_device_witness:
  "fst (initialize BaseHandler_init ctx_scripted host_ipex) = Inr ()
   \<and> (\<exists>m d. model (fst (snd (initialize BaseHandler_init ctx_scripted host_ipex))) = Some m
            \<and> device (fst (snd (initialize BaseHandler_init ctx_scripted host_ipex))) = Some d
            \<and> resident m = d \<and> training m = False
            \<and> initialized (fst (snd (initialize BaseHandler_init ctx_scripted host_ipex))) = True)
   \<and> fst (initialize BaseHandler_init ctx_eager host_eager) = Inr ()
   \<and> (\<exists>m d. model (fst (snd (initialize BaseHandler_init ctx_eager host_eager))) = Some m
            \<and> device (fst (snd (initialize BaseHandler_init ctx_eager host_eager))) = Some d
            \<and> resident m = d \<and> training m = False
            \<and> initialized (fst (snd (initialize BaseHandler_init ctx_eager host_eager))) = True)"
  using initialize_success_eval_on_device [OF run_triple [OF scripted_on_ipex_run]]
        initialize_success_eval_on_device [OF run_triple [OF eager_run]]
        scripted_on_ipex_run eager_run
  by blast

section \<open>Label mapping\<close>

text \<open>
  C7. When model_dir holds no \<open>index_to_name.json\<close>, that absence adds no failure:
  \<open>initialize\<close> fails exactly when the steps before the label mapping fail (device
  selection, then loading the model), and with that error; the label mapping is left as it
  was (absent on a handler as \<open>__init__\<close> built it), also after a successful run, which
  has set the \<open>initialized\<close> flag and logged the warning last.
\<close>

theorem missing_mapping_file_not_fatal:
  assumes "\<not> isfile w (path_join (model_dir (system_properties ctx)) ''index_to_name.json'')"
  shows "fst (initialize h ctx w)
           = (case select_device h ctx w of
                (Inl e, h2, w2) \<Rightarrow> Inl e
              | (Inr u, h2, w2) \<Rightarrow> fst (load_model h2 ctx w2))
       \<and> mapping (fst (snd (initialize h ctx w))) = mapping h
       \<and> mapping (fst (snd (initialize BaseHandler_init ctx w))) = None
       \<and> (fst (initialize h ctx w) = Inr () \<longrightarrow>
            initialized (fst (snd (initialize h ctx w))) = True
            \<and> last (log (snd (snd (initialize h ctx w))))
                = (WARNING, ''Missing the index_to_name.json file. Inference output will not include class name.''))"
proof -
  have run: "fst (initialize k ctx w)
               = (case select_device k ctx w of
                    (Inl e, h2, w2) \<Rightarrow> Inl e
                  | (Inr u, h2, w2) \<Rightarrow> fst (load_model h2 ctx w2))
           \<and> mapping (fst (snd (initialize k ctx w))) = mapping k
           \<and> (fst (initialize k ctx w) = Inr () \<longrightarrow>
                initialized (fst (snd (initialize k ctx w))) = True
                \<and> last (log (snd (snd (initialize k ctx w))))
                    = (WARNING, ''Missing the index_to_name.json file. Inference output will not include class name.''))"
    for k
  proof -
    obtain r2 h2 w2 where sd: "select_device k ctx w = (r2, h2, w2)"
      by (cases "select_device k ctx w")
    obtain r3 h3 w3 where lm: "load_model h2 ctx w2 = (r3, h3, w3)"
      by (cases "load_model h2 ctx w2")
    have m2: "mapping h2 = mapping k"
      using select_device_handler(2) [of k ctx w] sd by simp
    moreover have "mapping h3 = mapping h2"
      using load_model_handler(2) [of h2 ctx w2] lm by simp
    ultimately have m3: "mapping h3 = mapping k"
      by simp
    have "isfile w2 = isfile w"
      using select_device_frame(4) [of k ctx w] sd by simp
    moreover have "isfile w3 = isfile w2"
      using load_model_world(6) [of h2 ctx w2] lm by simp
    ultimately have absent: "\<not> isfile w3 (mapping_file_path ctx)"
      using assms by (simp add: mapping_file_path_def)
    show ?thesis
    proof (cases r2)
      case (Inl e)
      with sd m2 show ?thesis
        by (simp add: initialize_def)
    next
      case device_ok: (Inr u2)
      show ?thesis
      proof (cases r3)
        case (Inl e)
        with sd lm m3 device_ok show ?thesis
          by (simp add: initialize_def load_and_finish_def)
      next
        case (Inr u)
        with sd lm m3 absent device_ok show ?thesis
          by (simp add: initialize_def load_and_finish_def load_mapping_def logger_def)
      qed
    qed
  qed
  from run [of h] run [of BaseHandler_init] show ?thesis
    by (simp add: BaseHandler_init_def)
qed

theorem missing_mapping_file_not_fatal_witness:
  "fst (initialize BaseHandler_init ctx_scripted host_scripted) = Inr ()
   \<and> mapping (fst (snd (initialize BaseHandler_init ctx_scripted host_scripted))) = None
   \<and> initialized (fst (snd (initialize BaseHandler_init ctx_scripted host_scripted))) = True
   \<and> last (log (snd (snd (initialize BaseHandler_init ctx_scripted host_scripted))))
       = (WARNING, ''Missing the index_to_name.json file. Inference output will not include class name.'')"
proof -
  have absent: "\<not> isfile host_scripted
                    (path_join (model_dir (system_properties ctx_scripted)) ''index_to_name.json'')"
    by (simp add: host_scripted_def host_bare_def ctx_scripted_def path_join_def endswith_sep_def)
  have "mapping (fst (snd (initialize BaseHandler_init ctx_scripted host_scripted))) = None
        \<and> (fst (initialize BaseHandler_init ctx_scripted host_scripted) = Inr () \<longrightarrow>
            initialized (fst (snd (initialize BaseHandler_init ctx_scripted host_scripted))) = True
            \<and> last (log (snd (snd (initialize BaseHandler_init ctx_scripted host_scripted))))
                = (WARNING, ''Missing the index_to_name.json file. Inference output will not include class name.''))"
    using missing_mapping_file_not_fatal [OF absent, of BaseHandler_init] by blast
  then show ?thesis
    using scripted_run by simp
qed

section \<open>Partial state after a failure\<close>




section \<open>Device resolution\<close>

text \<open>
  C3, at the inputs where it fails. On a host with an accelerator and a context that gives
  no \<open>gpu_id\<close>, line 37 builds the device string from \<open>str(None)\<close>: it is \<open>cuda:None\<close>,
  which \<open>torch.device\<close> refuses. No default accelerator index is selected:
  \<open>initialize\<close> stops at line 37 with that error, having assigned the manifest only, and
  the device of the handler is left as it was.
\<close>

theorem accelerator_without_gpu_id:
  assumes "cuda_is_available w"
    and "gpu_id (system_properties ctx) = None"
  shows "device_string ctx w = ''cuda:None''
       \<and> torch_device w (device_string ctx w) = Inl (Raised ''torch.device'')
       \<and> initialize h ctx w = (Inl (Raised ''torch.device''), h\<lparr>manifest := Some (ctx_manifest ctx)\<rparr>, w)
       \<and> device (fst (snd (initialize h ctx w))) = device h"
proof -
  have s: "device_string ctx w = ''cuda:None''"
    using assms by (simp add: device_string_cuda py_str_def)
  then have "torch_device w (device_string ctx w) = Inl (Raised ''torch.device'')"
    by (simp add: torch_device_None)
  with s show ?thesis
    by (simp add: initialize_rejected)
qed

theorem accelerator_without_gpu_id_witness:
  "device_string ctx_scripted host_cuda = ''cuda:None''
   \<and> fst (initialize BaseHandler_init ctx_scripted host_cuda) = Inl (Raised ''torch.device'')
   \<and> device (fst (snd (initialize BaseHandler_init ctx_scripted host_cuda))) = None
   \<and> initialized (fst (snd (initialize BaseHandler_init ctx_scripted host_cuda))) = False"
proof -
  have host: "cuda_is_available host_cuda"
    by (simp add: host_cuda_def)
  have ctx: "gpu_id (system_properties ctx_scripted) = None"
    by (simp add: ctx_scripted_def)
  show ?thesis
    using accelerator_without_gpu_id [OF host ctx, of BaseHandler_init]
    by (simp add: BaseHandler_init_fields)
qed

section \<open>Pipeline stages\<close>

text \<open>
  C6, amended. The base class puts no guard on the pipeline stages: each of
  \<open>preprocess\<close>, \<open>inference\<close> and \<open>postprocess\<close> has an empty body, returns None and
  raises nothing, whatever the handler holds and whether or not \<open>initialize\<close> has
  succeeded on it.
\<close>

theorem stages_do_not_check_initialized:
  "preprocess h data = Inr JNull \<and> inference h data = Inr JNull \<and> postprocess h data = Inr JNull"
  by (simp add: preprocess_def inference_def postprocess_def)

theorem stages_do_not_check_initialized_witness:
  "preprocess BaseHandler_init (JStr ''request'') = Inr JNull
   \<and> inference BaseHandler_init (JStr ''request'') = Inr JNull
   \<and> postprocess BaseHandler_init (JStr ''request'') = Inr JNull"
  using stages_do_not_check_initialized [of BaseHandler_init "JStr ''request''"]
  by simp

text \<open>
  C6 as stated fails on a handler fresh from \<open>__init__\<close>: no stage raises.
\<close>

theorem stage_before_initialize_counterexample:
  "initialized BaseHandler_init = False
   \<and> model BaseHandler_init = None
   \<and> preprocess BaseHandler_init (JStr ''request'') = Inr JNull
   \<and> inference BaseHandler_init (JStr ''request'') = Inr JNull
   \<and> postprocess BaseHandler_init (JStr ''request'') = Inr JNull"
  by (simp add: BaseHandler_init_def preprocess_def inference_def postprocess_def)

section \<open>Label mapping from the file\<close>

lemma initialize_reads_mapping:
  assumes ok: "initialize h ctx w = (Inr (), h', w')"
    and present: "isfile w (mapping_file_path ctx)"
    and parsed: "json_load w (mapping_file_path ctx) = Some j"
  shows "mapping h' = Some j"
proof (cases rule: initialize_cases [of h ctx w])
  case (device_failed e h2 w2)
  with ok show ?thesis
    by simp
next
  case (model_failed e h2 w2 h3 w3)
  with ok show ?thesis
    by simp
next
  case (mapping_failed e h2 w2 h3 w3 h4 w4)
  with ok show ?thesis
    by simp
next
  case (succeeded h2 w2 h3 w3 h4 w4)
  have "isfile w2 = isfile w" "json_load w2 = json_load w"
    using select_device_frame(4,11) [of h ctx w] succeeded(1) by simp_all
  moreover have "isfile w3 = isfile w2" "json_load w3 = json_load w2"
    using load_model_world(6,7) [of h2 ctx w2] succeeded(2) by simp_all
  ultimately have "isfile w3 (mapping_file_path ctx)" "json_load w3 (mapping_file_path ctx) = Some j"
    using present parsed by simp_all
  then have "load_mapping h3 ctx w3 = (Inr (), h3\<lparr>mapping := Some j\<rparr>, w3)"
    by (simp add: load_mapping_def)
  with succeeded(3) have "h4 = h3\<lparr>mapping := Some j\<rparr>"
    by simp
  moreover have "h' = h4\<lparr>initialized := True\<rparr>"
    using ok succeeded(4) by simp
  ultimately show ?thesis
    by simp
qed

text \<open>
  C8. When model_dir holds an \<open>index_to_name.json\<close> that parses to an object with the
  entries "0": "cat" and "1": "dog", a successful \<open>initialize\<close> retains the parsed object
  as it is, with the keys of the file: the label of index 0, held under the key "0", is
  "cat", and the label of index 1, held under the key "1", is "dog".
\<close>

theorem mapping_keeps_string_keys:
  assumes "initialize h ctx w = (Inr (), h', w')"
    and "isfile w (path_join (model_dir (system_properties ctx)) ''index_to_name.json'')"
    and "json_load w (path_join (model_dir (system_properties ctx)) ''index_to_name.json'')
           = Some (JObj kvs)"
    and "map_of kvs ''0'' = Some (JStr ''cat'')"
    and "map_of kvs ''1'' = Some (JStr ''dog'')"
  shows "mapping h' = Some (JObj kvs)
       \<and> dict_getitem kvs ''0'' = Inr (JStr ''cat'')
       \<and> dict_getitem kvs ''1'' = Inr (JStr ''dog'')"
proof -
  have "mapping h' = Some (JObj kvs)"
    using initialize_reads_mapping [OF assms(1)] assms(2,3)
    by (simp add: mapping_file_path_def)
  then show ?thesis
    using assms(4,5) by (simp add: dict_getitem_def)
qed

theorem mapping_keeps_string_keys_witness:
  "fst (initialize BaseHandler_init ctx_scripted host_labels) = Inr ()
   \<and> mapping (fst (snd (initialize BaseHandler_init ctx_scripted host_labels)))
       = Some (JObj [(''0'', JStr ''cat''), (''1'', JStr ''dog'')])
   \<and> dict_getitem [(''0'', JStr ''cat''), (''1'', JStr ''dog'')] ''0'' = Inr (JStr ''cat'')
   \<and> dict_getitem [(''0'', JStr ''cat''), (''1'', JStr ''dog'')] ''1'' = Inr (JStr ''dog'')"
proof -
  have present: "isfile host_labels (path_join (model_dir (system_properties ctx_scripted)) ''index_to_name.json'')"
    by (simp add: host_labels_def ctx_scripted_def path_join_def endswith_sep_def)
  have parsed: "json_load host_labels (path_join (model_dir (system_properties ctx_scripted)) ''index_to_name.json'')
                  = Some (JObj [(''0'', JStr ''cat''), (''1'', JStr ''dog'')])"
    by (simp add: host_labels_def labels_def ctx_scripted_def path_join_def endswith_sep_def)
  have cat: "map_of [(''0'', JStr ''cat''), (''1'', JStr ''dog'')] ''0'' = Some (JStr ''cat'')"
    and dog: "map_of [(''0'', JStr ''cat''), (''1'', JStr ''dog'')] ''1'' = Some (JStr ''dog'')"
    by simp_all
  show ?thesis
    using mapping_keeps_string_keys [OF run_triple [OF labels_run] present parsed cat dog] labels_run
    by simp
qed

section \<open>Model definition file\<close>

lemma read_model_not_one_class:
  assumes "isfile w (model_def_path ctx)"
    and "import_module w (hd (str_split CHR ''.'' (model_file_of ctx))) = Some module"
    and "length (list_classes_from_module module) \<noteq> 1"
  shows "read_model h ctx w = (Inl (expected_one_class (list_classes_from_module module)), h, w)"
proof (cases "list_classes_from_module module")
  case Nil
  with assms(1,2) show ?thesis
    by (simp add: read_model_def Let_def)
next
  case (Cons c cs)
  with assms(3) obtain c' cs' where "cs = c' # cs'"
    by (cases cs) auto
  with Cons assms(1,2) show ?thesis
    by (simp add: read_model_def Let_def)
qed

lemma read_model_one_class:
  assumes "isfile w (model_def_path ctx)"
    and "import_module w (hd (str_split CHR ''.'' (model_file_of ctx))) = Some module"
    and "list_classes_from_module module = [c]"
    and "torch_load w (artifact_path ctx) (map_location_of w) = Some sd"
    and "instantiate w c = Some m"
    and "\<not> load_state_dict_raises w m sd"
  shows "read_model h ctx w = (Inr (m\<lparr>params := sd\<rparr>), h\<lparr>model := Some (m\<lparr>params := sd\<rparr>)\<rparr>, w)"
  using assms
  by (simp add: read_model_def Let_def load_state_dict_def)

text \<open>
  C2, amended. Take a context for which \<open>torch.device\<close> at line 37 returns, whose
  serialized artifact exists, whose model-definition path exists, and whose module (named
  by the text of modelFile before its first dot) imports. If the module yields zero or at
  least two classes, \<open>initialize\<close> fails with the ValueError of line 71, whose message
  carries the list of the classes found. If it yields exactly one class, and reading the
  state dict, constructing the class, loading the state dict onto the instance, moving the
  instance to the handler's device and parsing the label file (when there is one) do not
  raise, then \<open>initialize\<close> succeeds, and the handler holds the instance of that class
  with the saved parameters, on the handler's device, in evaluation mode.
\<close>

theorem model_definition_classes:
  assumes "torch_device w (device_string ctx w) = Inr (TorchDevice (device_string ctx w))"
    and "isfile w (artifact_path ctx)"
    and "isfile w (model_def_path ctx)"
    and "import_module w (hd (str_split CHR ''.'' (model_file_of ctx))) = Some module"
  shows "(length (list_classes_from_module module) \<noteq> 1 \<longrightarrow>
            fst (initialize h ctx w)
              = Inl (ValueError (''Expected only one class as model definition. ''
                                 @ repr_classes (list_classes_from_module module))))
       \<and> (list_classes_from_module module = [c]
            \<and> torch_load w (artifact_path ctx) (map_location_of w) = Some sd
            \<and> instantiate w c = Some m
            \<and> \<not> load_state_dict_raises w m sd
            \<and> device (fst (snd (select_device h ctx w))) = Some d
            \<and> \<not> to_raises w (m\<lparr>params := sd\<rparr>) d
            \<and> (isfile w (mapping_file_path ctx) \<longrightarrow> json_load w (mapping_file_path ctx) \<noteq> None) \<longrightarrow>
            fst (initialize h ctx w) = Inr ()
            \<and> device (fst (snd (initialize h ctx w))) = Some d
            \<and> model (fst (snd (initialize h ctx w)))
                = Some (m\<lparr>params := sd, resident := d, training := False\<rparr>))"
proof -
  obtain r2 h2 w2 where sd: "select_device h ctx w = (r2, h2, w2)"
    by (cases "select_device h ctx w")
  have r2: "r2 = Inr ()"
    using select_device_accepted(1) [OF assms(1), of h] sd by simp
  have frame: "isfile w2 = isfile w" "import_module w2 = import_module w"
    "torch_load w2 = torch_load w" "instantiate w2 = instantiate w"
    "load_state_dict_raises w2 = load_state_dict_raises w" "to_raises w2 = to_raises w"
    "json_load w2 = json_load w"
    using select_device_frame(4,5,6,7,8,10,11) [of h ctx w] sd by simp_all
  have loc: "map_location_of w2 = map_location_of w"
    using select_device_map_location [of h ctx w] sd by simp
  have pre: "isfile w2 (artifact_path ctx)" "isfile w2 (model_def_path ctx)"
    "import_module w2 (hd (str_split CHR ''.'' (model_file_of ctx))) = Some module"
    using assms(2-4) frame by simp_all
  have many: "fst (initialize h ctx w)
                = Inl (ValueError (''Expected only one class as model definition. ''
                                   @ repr_classes (list_classes_from_module module)))"
    if "length (list_classes_from_module module) \<noteq> 1"
    using read_model_not_one_class [OF pre(2,3) that, of h2] pre(1) sd r2
    by (simp add: initialize_def load_and_finish_def load_model_def expected_one_class_def)
  have one: "fst (initialize h ctx w) = Inr ()
             \<and> device (fst (snd (initialize h ctx w))) = Some d
             \<and> model (fst (snd (initialize h ctx w)))
                 = Some (m\<lparr>params := sd, resident := d, training := False\<rparr>)"
    if cls: "list_classes_from_module module = [c]"
      and tl: "torch_load w (artifact_path ctx) (map_location_of w) = Some sd"
      and inst: "instantiate w c = Some m"
      and fits: "\<not> load_state_dict_raises w m sd"
      and dev: "device (fst (snd (select_device h ctx w))) = Some d"
      and moves: "\<not> to_raises w (m\<lparr>params := sd\<rparr>) d"
      and js: "isfile w (mapping_file_path ctx) \<longrightarrow> json_load w (mapping_file_path ctx) \<noteq> None"
  proof -
    have "torch_load w2 (artifact_path ctx) (map_location_of w2) = Some sd"
      "instantiate w2 c = Some m" "\<not> load_state_dict_raises w2 m sd"
      using tl inst fits frame loc by simp_all
    from read_model_one_class [OF pre(2,3) cls this]
    have rm: "read_model h2 ctx w2
                = (Inr (m\<lparr>params := sd\<rparr>), h2\<lparr>model := Some (m\<lparr>params := sd\<rparr>)\<rparr>, w2)" .
    have d: "device h2 = Some d"
      using dev sd by simp
    have lm: "load_model h2 ctx w2
           = (Inr (), h2\<lparr>model := Some (m\<lparr>params := sd, resident := d, training := False\<rparr>)\<rparr>,
              logger DEBUG (''Model file '' @ artifact_path ctx @ '' loaded successfully'') w2)"
      using rm pre(1) d moves frame(6)
      by (simp add: load_model_def Module_to_def Module_eval_def)
    have "isfile w2 (mapping_file_path ctx) \<longrightarrow> (\<exists>j. json_load w2 (mapping_file_path ctx) = Some j)"
      using js frame by auto
    then show ?thesis
      using sd r2 lm d
      by (auto simp: initialize_def load_and_finish_def load_mapping_def logger_def)
  qed
  from many one show ?thesis
    by blast
qed

theorem model_definition_classes_witness:
  "fst (initialize BaseHandler_init ctx_eager host_two_classes)
     = Inl (ValueError (''Expected only one class as model definition. '' @ repr_classes [Net, Net2]))
   \<and> fst (initialize BaseHandler_init ctx_eager host_eager) = Inr ()
   \<and> device (fst (snd (initialize BaseHandler_init ctx_eager host_eager))) = Some (TorchDevice ''cpu'')
   \<and> model (fst (snd (initialize BaseHandler_init ctx_eager host_eager)))
       = Some (fresh_Net\<lparr>params := saved_params, resident := TorchDevice ''cpu'', training := False\<rparr>)"
proof -
  have paths: "artifact_path ctx_eager = ''/m/model.pt''" "model_def_path ctx_eager = ''/m/model.py''"
    "mapping_file_path ctx_eager = ''/m/index_to_name.json''"
    "hd (str_split CHR ''.'' (model_file_of ctx_eager)) = ''model''"
    by (simp_all add: artifact_path_def model_def_path_def mapping_file_path_def model_file_of_def
          ctx_eager_def path_join_def endswith_sep_def)
  have dev2: "torch_device host_two_classes (device_string ctx_eager host_two_classes)
                = Inr (TorchDevice (device_string ctx_eager host_two_classes))"
    and dev1: "torch_device host_eager (device_string ctx_eager host_eager)
                = Inr (TorchDevice (device_string ctx_eager host_eager))"
    by code_simp+
  have two: "isfile host_two_classes (artifact_path ctx_eager)"
    "isfile host_two_classes (model_def_path ctx_eager)"
    "import_module host_two_classes (hd (str_split CHR ''.'' (model_file_of ctx_eager))) = Some model_py_two"
    by (simp_all add: paths host_two_classes_def host_eager_def host_bare_def)
  have two_classes: "list_classes_from_module model_py_two = [Net, Net2]"
    by (simp add: list_classes_from_module_def model_py_two_def Net_def Net2_def)
  have eager: "isfile host_eager (artifact_path ctx_eager)"
    "isfile host_eager (model_def_path ctx_eager)"
    "import_module host_eager (hd (str_split CHR ''.'' (model_file_of ctx_eager))) = Some model_py"
    by (simp_all add: paths host_eager_def host_bare_def)
  have one_class: "list_classes_from_module model_py = [Net]"
    by (simp add: list_classes_from_module_def model_py_def Net_def)
  have loads: "torch_load host_eager (artifact_path ctx_eager) (map_location_of host_eager) = Some saved_params"
    "instantiate host_eager Net = Some fresh_Net"
    "\<not> load_state_dict_raises host_eager fresh_Net saved_params"
    "\<not> to_raises host_eager (fresh_Net\<lparr>params := saved_params\<rparr>) (TorchDevice ''cpu'')"
    "\<not> isfile host_eager (mapping_file_path ctx_eager)"
    by (simp_all add: paths host_eager_def host_bare_def)
  have selected: "device (fst (snd (select_device BaseHandler_init ctx_eager host_eager)))
                    = Some (TorchDevice ''cpu'')"
    by code_simp
  show ?thesis
    using model_definition_classes [OF dev2 two, where h = BaseHandler_init]
          model_definition_classes [OF dev1 eager, where c = Net and sd = saved_params
                                      and m = fresh_Net and h = BaseHandler_init
                                      and d = "TorchDevice ''cpu''"]
          two_classes one_class loads selected
    by simp
qed

text \<open>
  C2 as stated fails in two ways. The model-definition path exists and its module declares
  exactly one class, but the serialized artifact is missing: \<open>initialize\<close> fails at line 61
  before it looks at the module. And with the artifact in place, a state dict that does not
  fit the class makes \<open>load_state_dict\<close> raise: \<open>initialize\<close> fails although exactly
  one class was found.
\<close>

theorem one_class_but_no_success_counterexample:
  "isfile host_def_only (model_def_path ctx_eager)
   \<and> map_option list_classes_from_module
        (import_module host_def_only (hd (str_split CHR ''.'' (model_file_of ctx_eager)))) = Some [Net]
   \<and> fst (initialize BaseHandler_init ctx_eager host_def_only)
       = Inl (RuntimeError ''Missing the model.pt file'')
   \<and> isfile host_mismatch (model_def_path ctx_eager)
   \<and> isfile host_mismatch (artifact_path ctx_eager)
   \<and> map_option list_classes_from_module
        (import_module host_mismatch (hd (str_split CHR ''.'' (model_file_of ctx_eager)))) = Some [Net]
   \<and> fst (initialize BaseHandler_init ctx_eager host_mismatch) = Inl (Raised ''load_state_dict'')"
  by code_simp

section \<open>The vendor acceleration probe\<close>

lemma ipex_probe_body_device:
  "device (fst (snd (ipex_probe_body h w)))
     = (case ipex_device w of None \<Rightarrow> device h | Some d \<Rightarrow> Some d)"
  using ipex_probe_handler [of h w] by (simp add: ipex_probe_def)

lemma ipex_probe_body_stops_early:
  assumes "ipex_device w = None"
  shows "\<exists>e. ipex_probe_body h w = (Some e, h, w)"
  using assms
  by (auto simp: ipex_probe_body_def ipex_device_def split: option.splits sum.splits)

text \<open>
  C4, amended. The probe runs on the general-purpose-processor path only. Whatever it
  raises is dropped: device selection returns normally, and \<open>initialize\<close> goes on with
  lines 57 to 95 from the state the probe left, so that its outcome is theirs. When the
  probe fails no later than line 43 (the library is absent, has no \<open>DEVICE\<close>, or
  \<open>torch.device\<close> refuses it), the device stays the one resolved before (cpu). When it
  fails after line 43 (enabling mixed precision, running lscpu, reading the number of
  threads), that line has already switched the device to the library's device, and it
  stays switched through the rest of \<open>initialize\<close>.
\<close>

theorem probe_failure_is_swallowed:
  "(cuda_is_available w \<longrightarrow>
      select_device h ctx w = (fst (resolve_device h ctx w), snd (resolve_device h ctx w), w))
   \<and> (\<not> cuda_is_available w \<and> ipex_probe_body (snd (resolve_device h ctx w)) w = (Some e, h2, w2) \<longrightarrow>
        fst (resolve_device h ctx w) = Inr ()
        \<and> device (snd (resolve_device h ctx w)) = Some (TorchDevice ''cpu'')
        \<and> select_device h ctx w = (Inr (), h2, w2)
        \<and> initialize h ctx w = load_and_finish h2 ctx w2
        \<and> device h2 = (case ipex_device w of None \<Rightarrow> Some (TorchDevice ''cpu'') | Some d \<Rightarrow> Some d)
        \<and> device (fst (snd (initialize h ctx w))) = device h2)"
proof -
  have swallowed: "fst (resolve_device h ctx w) = Inr ()
        \<and> device (snd (resolve_device h ctx w)) = Some (TorchDevice ''cpu'')
        \<and> select_device h ctx w = (Inr (), h2, w2)
        \<and> initialize h ctx w = load_and_finish h2 ctx w2
        \<and> device h2 = (case ipex_device w of None \<Rightarrow> Some (TorchDevice ''cpu'') | Some d \<Rightarrow> Some d)
        \<and> device (fst (snd (initialize h ctx w))) = device h2"
    if cpu: "\<not> cuda_is_available w"
      and body: "ipex_probe_body (snd (resolve_device h ctx w)) w = (Some e, h2, w2)"
  proof -
    have resolved: "resolve_device h ctx w
                      = (Inr (), h\<lparr>manifest := Some (ctx_manifest ctx), device := Some (TorchDevice ''cpu'')\<rparr>)"
      using cpu by (simp add: resolve_device_accepted device_string_cpu torch_device_cpu)
    have sd: "select_device h ctx w = (Inr (), h2, w2)"
      using select_device_cpu [OF cpu, of h ctx] body resolved by simp
    then have init: "initialize h ctx w = load_and_finish h2 ctx w2"
      by (simp add: initialize_def)
    have dev: "device h2 = (case ipex_device w of None \<Rightarrow> Some (TorchDevice ''cpu'') | Some d \<Rightarrow> Some d)"
      using ipex_probe_body_device [of "snd (resolve_device h ctx w)" w] body resolved
      by (simp split: option.splits)
    have "device (fst (snd (initialize h ctx w))) = device h2"
      using initialize_device [of h ctx w] sd by simp
    with resolved sd init dev show ?thesis
      by simp
  qed
  show ?thesis
    using swallowed select_device_cuda [of w h ctx] by blast
qed

theorem probe_failure_is_swallowed_witness:
  "fst (ipex_probe_body (snd (resolve_device BaseHandler_init ctx_scripted host_scripted)) host_scripted)
     = Some (Raised ''import intel_pytorch_extension'')
   \<and> fst (initialize BaseHandler_init ctx_scripted host_scripted) = Inr ()
   \<and> device (fst (snd (initialize BaseHandler_init ctx_scripted host_scripted))) = Some (TorchDevice ''cpu'')
   \<and> fst (ipex_probe_body (snd (resolve_device BaseHandler_init ctx_scripted host_ipex_unknown)) host_ipex_unknown)
       = Some (Raised ''torch.device'')
   \<and> fst (initialize BaseHandler_init ctx_scripted host_ipex_unknown) = Inr ()
   \<and> device (fst (snd (initialize BaseHandler_init ctx_scripted host_ipex_unknown))) = Some (TorchDevice ''cpu'')
   \<and> fst (ipex_probe_body (snd (resolve_device BaseHandler_init ctx_scripted host_ipex_tab)) host_ipex_tab)
       = Some (Raised ''int'')
   \<and> fst (initialize BaseHandler_init ctx_scripted host_ipex_tab) = Inr ()
   \<and> device (fst (snd (initialize BaseHandler_init ctx_scripted host_ipex_tab))) = Some (TorchDevice ''xpu'')
   \<and> select_device BaseHandler_init ctx_scripted host_cuda
       = (fst (resolve_device BaseHandler_init ctx_scripted host_cuda),
          snd (resolve_device BaseHandler_init ctx_scripted host_cuda), host_cuda)"
proof -
  have absent: "fst (initialize BaseHandler_init ctx_scripted host_scripted) = Inr ()
              \<and> device (fst (snd (initialize BaseHandler_init ctx_scripted host_scripted))) = Some (TorchDevice ''cpu'')"
  proof -
    let ?body = "ipex_probe_body (snd (resolve_device BaseHandler_init ctx_scripted host_scripted)) host_scripted"
    define h2 where "h2 = fst (snd ?body)"
    define w2 where "w2 = snd (snd ?body)"
    have cpu: "\<not> cuda_is_available host_scripted"
      by (simp add: host_scripted_def host_ipex_def host_scripted_def host_bare_def)
    have "fst ?body = Some (Raised ''import intel_pytorch_extension'')"
      by code_simp
    then have body: "?body = (Some (Raised ''import intel_pytorch_extension''), h2, w2)"
      unfolding h2_def w2_def by (rule run_triple)
    have dev: "ipex_device host_scripted = None"
      by code_simp
    have finished: "fst (load_and_finish h2 ctx_scripted w2) = Inr ()"
      unfolding h2_def w2_def by code_simp
    from probe_failure_is_swallowed [of host_scripted BaseHandler_init ctx_scripted "Raised ''import intel_pytorch_extension''" h2 w2]
    have "initialize BaseHandler_init ctx_scripted host_scripted = load_and_finish h2 ctx_scripted w2"
      and "device h2 = (case ipex_device host_scripted of None \<Rightarrow> Some (TorchDevice ''cpu'') | Some d \<Rightarrow> Some d)"
      and "device (fst (snd (initialize BaseHandler_init ctx_scripted host_scripted))) = device h2"
      using cpu body by auto
    with dev finished show ?thesis
      by simp
  qed
  have unknown: "fst (initialize BaseHandler_init ctx_scripted host_ipex_unknown) = Inr ()
              \<and> device (fst (snd (initialize BaseHandler_init ctx_scripted host_ipex_unknown))) = Some (TorchDevice ''cpu'')"
  proof -
    let ?body = "ipex_probe_body (snd (resolve_device BaseHandler_init ctx_scripted host_ipex_unknown)) host_ipex_unknown"
    define h2 where "h2 = fst (snd ?body)"
    define w2 where "w2 = snd (snd ?body)"
    have cpu: "\<not> cuda_is_available host_ipex_unknown"
      by (simp add: host_ipex_unknown_def host_ipex_def host_scripted_def host_bare_def)
    have "fst ?body = Some (Raised ''torch.device'')"
      by code_simp
    then have body: "?body = (Some (Raised ''torch.device''), h2, w2)"
      unfolding h2_def w2_def by (rule run_triple)
    have dev: "ipex_device host_ipex_unknown = None"
      by code_simp
    have finished: "fst (load_and_finish h2 ctx_scripted w2) = Inr ()"
      unfolding h2_def w2_def by code_simp
    from probe_failure_is_swallowed [of host_ipex_unknown BaseHandler_init ctx_scripted "Raised ''torch.device''" h2 w2]
    have "initialize BaseHandler_init ctx_scripted host_ipex_unknown = load_and_finish h2 ctx_scripted w2"
      and "device h2 = (case ipex_device host_ipex_unknown of None \<Rightarrow> Some (TorchDevice ''cpu'') | Some d \<Rightarrow> Some d)"
      and "device (fst (snd (initialize BaseHandler_init ctx_scripted host_ipex_unknown))) = device h2"
      using cpu body by auto
    with dev finished show ?thesis
      by simp
  qed
  have tab: "fst (initialize BaseHandler_init ctx_scripted host_ipex_tab) = Inr ()
              \<and> device (fst (snd (initialize BaseHandler_init ctx_scripted host_ipex_tab))) = Some (TorchDevice ''xpu'')"
  proof -
    let ?body = "ipex_probe_body (snd (resolve_device BaseHandler_init ctx_scripted host_ipex_tab)) host_ipex_tab"
    define h2 where "h2 = fst (snd ?body)"
    define w2 where "w2 = snd (snd ?body)"
    have cpu: "\<not> cuda_is_available host_ipex_tab"
      by (simp add: host_ipex_tab_def host_ipex_def host_scripted_def host_bare_def)
    have "fst ?body = Some (Raised ''int'')"
      by code_simp
    then have body: "?body = (Some (Raised ''int''), h2, w2)"
      unfolding h2_def w2_def by (rule run_triple)
    have dev: "ipex_device host_ipex_tab = Some (TorchDevice ''xpu'')"
      by code_simp
    have finished: "fst (load_and_finish h2 ctx_scripted w2) = Inr ()"
      unfolding h2_def w2_def by code_simp
    from probe_failure_is_swallowed [of host_ipex_tab BaseHandler_init ctx_scripted "Raised ''int''" h2 w2]
    have "initialize BaseHandler_init ctx_scripted host_ipex_tab = load_and_finish h2 ctx_scripted w2"
      and "device h2 = (case ipex_device host_ipex_tab of None \<Rightarrow> Some (TorchDevice ''cpu'') | Some d \<Rightarrow> Some d)"
      and "device (fst (snd (initialize BaseHandler_init ctx_scripted host_ipex_tab))) = device h2"
      using cpu body by auto
    with dev finished show ?thesis
      by simp
  qed
  have errors: "fst (ipex_probe_body (snd (resolve_device BaseHandler_init ctx_scripted host_scripted)) host_scripted)
                  = Some (Raised ''import intel_pytorch_extension'')"
    "fst (ipex_probe_body (snd (resolve_device BaseHandler_init ctx_scripted host_ipex_unknown)) host_ipex_unknown)
       = Some (Raised ''torch.device'')"
    "fst (ipex_probe_body (snd (resolve_device BaseHandler_init ctx_scripted host_ipex_tab)) host_ipex_tab)
       = Some (Raised ''int'')"
    by code_simp+
  have "cuda_is_available host_cuda"
    by (simp add: host_cuda_def)
  with probe_failure_is_swallowed [of host_cuda BaseHandler_init ctx_scripted]
  have cuda: "select_device BaseHandler_init ctx_scripted host_cuda
       = (fst (resolve_device BaseHandler_init ctx_scripted host_cuda),
          snd (resolve_device BaseHandler_init ctx_scripted host_cuda), host_cuda)"
    by simp
  from absent unknown tab errors cuda show ?thesis
    by simp
qed

text \<open>
  C4 as stated fails where the topology probe raises after the import: with a tab before
  the thread count, \<open>int\<close> rejects the token; the exception is dropped, but the device,
  resolved as cpu, has become the library's device.
\<close>

theorem probe_failure_changes_device_counterexample:
  "cuda_is_available host_ipex_tab = False
   \<and> map_option per_core_of (lscpu host_ipex_tab) = Some [''core:'' @ [CHR 0x09] @ ''2'']
   \<and> fst (ipex_probe_body (snd (resolve_device BaseHandler_init ctx_scripted host_ipex_tab)) host_ipex_tab)
       = Some (Raised ''int'')
   \<and> device (snd (resolve_device BaseHandler_init ctx_scripted host_ipex_tab)) = Some (TorchDevice ''cpu'')
   \<and> device (fst (snd (select_device BaseHandler_init ctx_scripted host_ipex_tab))) = Some (TorchDevice ''xpu'')
   \<and> fst (initialize BaseHandler_init ctx_scripted host_ipex_tab) = Inr ()
   \<and> device (fst (snd (initialize BaseHandler_init ctx_scripted host_ipex_tab))) = Some (TorchDevice ''xpu'')"
  by code_simp

section \<open>Mixed precision and the affinity hint\<close>

lemma initialize_process_state:
  "amp_enabled (snd (snd (initialize h ctx w))) = amp_enabled (snd (snd (select_device h ctx w)))"
  "environ (snd (snd (initialize h ctx w))) = environ (snd (snd (select_device h ctx w)))"
proof -
  have "amp_enabled (snd (snd (initialize h ctx w))) = amp_enabled (snd (snd (select_device h ctx w)))
        \<and> environ (snd (snd (initialize h ctx w))) = environ (snd (snd (select_device h ctx w)))"
  proof (cases rule: initialize_cases [of h ctx w])
    case (device_failed e h2 w2)
    then show ?thesis
      by simp
  next
    case (model_failed e h2 w2 h3 w3)
    then show ?thesis
      using load_model_world(4,5) [of h2 ctx w2] by simp
  next
    case (mapping_failed e h2 w2 h3 w3 h4 w4)
    then show ?thesis
      using load_model_world(4,5) [of h2 ctx w2] load_mapping_world(4,5) [of h3 ctx w3] by simp
  next
    case (succeeded h2 w2 h3 w3 h4 w4)
    then show ?thesis
      using load_model_world(4,5) [of h2 ctx w2] load_mapping_world(4,5) [of h3 ctx w3] by simp
  qed
  then show "amp_enabled (snd (snd (initialize h ctx w))) = amp_enabled (snd (snd (select_device h ctx w)))"
    and "environ (snd (snd (initialize h ctx w))) = environ (snd (snd (select_device h ctx w)))"
    by simp_all
qed

lemma ipex_probe_body_amp:
  assumes "intel_pytorch_extension w = Some ipex" "ipex_device w = Some d"
  shows "amp_enabled (snd (snd (ipex_probe_body h w)))
           = (amp_enabled w \<or> (environ w ''IPEX_DISABLE_MIXED_PRECISION'' = None
                                \<and> \<not> enable_auto_mix_precision_raises ipex))"
  using assms
  by (auto simp: ipex_probe_body_def ipex_device_def Let_def
        split: option.splits list.splits sum.splits)

lemma ipex_probe_body_environ:
  assumes "intel_pytorch_extension w = Some ipex" "ipex_device w = Some d"
    and "environ w ''IPEX_DISABLE_MIXED_PRECISION'' \<noteq> None \<or> \<not> enable_auto_mix_precision_raises ipex"
  shows "environ (snd (snd (ipex_probe_body h w)))
           = (case lscpu w of
                None \<Rightarrow> environ w
              | Some lines \<Rightarrow>
                  (case per_core_of lines of
                     [] \<Rightarrow> (environ w)(''KMP_AFFINITY'' \<mapsto> KMP_compact_1_0)
                   | tok # _ \<Rightarrow>
                       (case py_int (int_max_str_digits w) tok of
                          None \<Rightarrow> environ w
                        | Some n \<Rightarrow>
                            (environ w)(''KMP_AFFINITY'' \<mapsto> (if n = 1 then KMP_compact else KMP_compact_1_0)))))"
  using assms
  by (auto simp: ipex_probe_body_def ipex_device_def Let_def
        split: option.splits list.splits sum.splits)

lemma ipex_probe_body_enable_raises:
  assumes "intel_pytorch_extension w = Some ipex" "ipex_device w = Some d"
    and "environ w ''IPEX_DISABLE_MIXED_PRECISION'' = None" "enable_auto_mix_precision_raises ipex"
  shows "snd (snd (ipex_probe_body h w)) = w"
  using assms
  by (auto simp: ipex_probe_body_def ipex_device_def Let_def split: option.splits sum.splits)

text \<open>
  C9, amended. On the general-purpose-processor path with the vendor library present, and
  when the probe gets past line 43 (the library has a \<open>DEVICE\<close> that \<open>torch.device\<close>
  accepts): auto mixed precision is switched on by \<open>initialize\<close> exactly when the override
  \<open>IPEX_DISABLE_MIXED_PRECISION\<close> is unset, provided that switching it on does not raise.
  When the probe then gets as far as the topology (the override is set, or switching on did
  not raise, and lscpu ran), \<open>KMP_AFFINITY\<close> is written with
  \<open>granularity=fine,verbose,compact\<close> if the last word of the first lscpu line containing
  "per core" reads as the integer 1, and with \<open>granularity=fine,verbose,compact,1,0\<close> if it
  reads as another integer or no line contains "per core". If that word does not read as an
  integer, or lscpu could not be run, or switching on mixed precision raised, or the probe
  did not get past line 43, the environment is left unwritten; in the last two cases mixed
  precision is left as it was.
\<close>

theorem mixed_precision_and_affinity:
  assumes "\<not> cuda_is_available w"
    and "intel_pytorch_extension w = Some ipex"
    and "initialize h ctx w = (r, h', w')"
  shows "(ipex_device w = None \<longrightarrow> amp_enabled w' = amp_enabled w \<and> environ w' = environ w)
       \<and> (ipex_device w \<noteq> None \<and> \<not> enable_auto_mix_precision_raises ipex \<longrightarrow>
            amp_enabled w' = (amp_enabled w \<or> environ w ''IPEX_DISABLE_MIXED_PRECISION'' = None))
       \<and> (ipex_device w \<noteq> None
            \<and> (environ w ''IPEX_DISABLE_MIXED_PRECISION'' \<noteq> None \<or> \<not> enable_auto_mix_precision_raises ipex) \<longrightarrow>
            environ w' =
              (case lscpu w of
                 None \<Rightarrow> environ w
               | Some lines \<Rightarrow>
                   (case per_core_of lines of
                      [] \<Rightarrow> (environ w)(''KMP_AFFINITY'' \<mapsto> ''granularity=fine,verbose,compact,1,0'')
                    | tok # _ \<Rightarrow>
                        (case py_int (int_max_str_digits w) tok of
                           None \<Rightarrow> environ w
                         | Some n \<Rightarrow>
                             (environ w)(''KMP_AFFINITY'' \<mapsto>
                               (if n = 1 then ''granularity=fine,verbose,compact''
                                else ''granularity=fine,verbose,compact,1,0''))))))
       \<and> (ipex_device w \<noteq> None
            \<and> environ w ''IPEX_DISABLE_MIXED_PRECISION'' = None \<and> enable_auto_mix_precision_raises ipex \<longrightarrow>
            amp_enabled w' = amp_enabled w \<and> environ w' = environ w)"
proof -
  define h1 where "h1 = h\<lparr>manifest := Some (ctx_manifest ctx), device := Some (TorchDevice ''cpu'')\<rparr>"
  have "w' = snd (snd (initialize h ctx w))"
    using assms(3) by simp
  then have amp: "amp_enabled w' = amp_enabled (snd (snd (ipex_probe_body h1 w)))"
    and env: "environ w' = environ (snd (snd (ipex_probe_body h1 w)))"
    using select_device_cpu [OF assms(1), of h ctx]
    by (simp_all add: initialize_process_state h1_def)
  have KMP: "KMP_compact = ''granularity=fine,verbose,compact''"
    "KMP_compact_1_0 = ''granularity=fine,verbose,compact,1,0''"
    by (simp_all add: KMP_compact_def KMP_compact_1_0_def)
  have zero: "amp_enabled w' = amp_enabled w \<and> environ w' = environ w"
    if "ipex_device w = None"
    using ipex_probe_body_stops_early [OF that, of h1] amp env by auto
  have one: "amp_enabled w' = (amp_enabled w \<or> environ w ''IPEX_DISABLE_MIXED_PRECISION'' = None)"
    if "ipex_device w \<noteq> None" "\<not> enable_auto_mix_precision_raises ipex"
    using that amp ipex_probe_body_amp [OF assms(2), of _ h1] by auto
  have two: "environ w' =
              (case lscpu w of
                 None \<Rightarrow> environ w
               | Some lines \<Rightarrow>
                   (case per_core_of lines of
                      [] \<Rightarrow> (environ w)(''KMP_AFFINITY'' \<mapsto> ''granularity=fine,verbose,compact,1,0'')
                    | tok # _ \<Rightarrow>
                        (case py_int (int_max_str_digits w) tok of
                           None \<Rightarrow> environ w
                         | Some n \<Rightarrow>
                             (environ w)(''KMP_AFFINITY'' \<mapsto>
                               (if n = 1 then ''granularity=fine,verbose,compact''
                                else ''granularity=fine,verbose,compact,1,0'')))))"
    if dev: "ipex_device w \<noteq> None"
      and far: "environ w ''IPEX_DISABLE_MIXED_PRECISION'' \<noteq> None \<or> \<not> enable_auto_mix_precision_raises ipex"
  proof -
    obtain d where "ipex_device w = Some d"
      using dev by auto
    from ipex_probe_body_environ [OF assms(2) this far, of h1] env show ?thesis
      by (simp only: KMP)
  qed
  have three: "amp_enabled w' = amp_enabled w \<and> environ w' = environ w"
    if "ipex_device w \<noteq> None"
      "environ w ''IPEX_DISABLE_MIXED_PRECISION'' = None" "enable_auto_mix_precision_raises ipex"
    using that amp env ipex_probe_body_enable_raises [OF assms(2), of _ h1] by auto
  have c0: "ipex_device w = None \<longrightarrow> amp_enabled w' = amp_enabled w \<and> environ w' = environ w"
    using zero by (rule impI)
  have c1: "ipex_device w \<noteq> None \<and> \<not> enable_auto_mix_precision_raises ipex \<longrightarrow>
            amp_enabled w' = (amp_enabled w \<or> environ w ''IPEX_DISABLE_MIXED_PRECISION'' = None)"
  proof (rule impI, elim conjE)
    assume "ipex_device w \<noteq> None" "\<not> enable_auto_mix_precision_raises ipex"
    then show "amp_enabled w' = (amp_enabled w \<or> environ w ''IPEX_DISABLE_MIXED_PRECISION'' = None)"
      by (rule one)
  qed
  have c2: "ipex_device w \<noteq> None
            \<and> (environ w ''IPEX_DISABLE_MIXED_PRECISION'' \<noteq> None \<or> \<not> enable_auto_mix_precision_raises ipex) \<longrightarrow>
            environ w' =
              (case lscpu w of
                 None \<Rightarrow> environ w
               | Some lines \<Rightarrow>
                   (case per_core_of lines of
                      [] \<Rightarrow> (environ w)(''KMP_AFFINITY'' \<mapsto> ''granularity=fine,verbose,compact,1,0'')
                    | tok # _ \<Rightarrow>
                        (case py_int (int_max_str_digits w) tok of
                           None \<Rightarrow> environ w
                         | Some n \<Rightarrow>
                             (environ w)(''KMP_AFFINITY'' \<mapsto>
                               (if n = 1 then ''granularity=fine,verbose,compact''
                                else ''granularity=fine,verbose,compact,1,0'')))))"
  proof (rule impI, elim conjE)
    assume "ipex_device w \<noteq> None"
      "environ w ''IPEX_DISABLE_MIXED_PRECISION'' \<noteq> None \<or> \<not> enable_auto_mix_precision_raises ipex"
    then show "environ w' =
              (case lscpu w of
                 None \<Rightarrow> environ w
               | Some lines \<Rightarrow>
                   (case per_core_of lines of
                      [] \<Rightarrow> (environ w)(''KMP_AFFINITY'' \<mapsto> ''granularity=fine,verbose,compact,1,0'')
                    | tok # _ \<Rightarrow>
                        (case py_int (int_max_str_digits w) tok of
                           None \<Rightarrow> environ w
                         | Some n \<Rightarrow>
                             (environ w)(''KMP_AFFINITY'' \<mapsto>
                               (if n = 1 then ''granularity=fine,verbose,compact''
                                else ''granularity=fine,verbose,compact,1,0'')))))"
      by (rule two)
  qed
  have c3: "ipex_device w \<noteq> None
            \<and> environ w ''IPEX_DISABLE_MIXED_PRECISION'' = None \<and> enable_auto_mix_precision_raises ipex \<longrightarrow>
            amp_enabled w' = amp_enabled w \<and> environ w' = environ w"
  proof (rule impI, elim conjE)
    assume "ipex_device w \<noteq> None" "environ w ''IPEX_DISABLE_MIXED_PRECISION'' = None"
      "enable_auto_mix_precision_raises ipex"
    then show "amp_enabled w' = amp_enabled w \<and> environ w' = environ w"
      by (rule three)
  qed
  show ?thesis
    by (rule conjI [OF c0 conjI [OF c1 conjI [OF c2 c3]]])
qed

theorem mixed_precision_and_affinity_witness:
  "amp_enabled (snd (snd (initialize BaseHandler_init ctx_scripted host_ipex))) = True
   \<and> environ (snd (snd (initialize BaseHandler_init ctx_scripted host_ipex))) ''KMP_AFFINITY''
       = Some ''granularity=fine,verbose,compact,1,0''
   \<and> amp_enabled (snd (snd (initialize BaseHandler_init ctx_scripted host_ipex_disabled))) = False
   \<and> environ (snd (snd (initialize BaseHandler_init ctx_scripted host_ipex_disabled))) ''KMP_AFFINITY''
       = Some ''granularity=fine,verbose,compact''
   \<and> amp_enabled (snd (snd (initialize BaseHandler_init ctx_scripted host_ipex_amp_fails))) = False
   \<and> environ (snd (snd (initialize BaseHandler_init ctx_scripted host_ipex_amp_fails))) ''KMP_AFFINITY''
       = None
   \<and> amp_enabled (snd (snd (initialize BaseHandler_init ctx_scripted host_ipex_unknown))) = False
   \<and> environ (snd (snd (initialize BaseHandler_init ctx_scripted host_ipex_unknown))) ''KMP_AFFINITY''
       = None"
proof -
  have cpu: "\<not> cuda_is_available host_ipex"
    and lib: "intel_pytorch_extension host_ipex = Some ipex_lib"
    and env: "environ host_ipex ''IPEX_DISABLE_MIXED_PRECISION'' = None"
    and ok: "\<not> enable_auto_mix_precision_raises ipex_lib"
    and lines: "lscpu host_ipex = Some [''Thread(s) per core:                  2'' @ [CHR 0x0A],
                                        ''Core(s) per socket:                  8'' @ [CHR 0x0A]]"
    by (simp_all add: host_ipex_def host_scripted_def host_bare_def ipex_lib_def)
  have dev: "ipex_device host_ipex = Some (TorchDevice ''xpu'')"
    by code_simp
  have tok: "per_core_of [''Thread(s) per core:                  2'' @ [CHR 0x0A],
                          ''Core(s) per socket:                  8'' @ [CHR 0x0A]] = [''2'']"
    by code_simp
  have two: "py_int (int_max_str_digits host_ipex) ''2'' = Some 2"
    by code_simp
  have cpu_d: "\<not> cuda_is_available host_ipex_disabled"
    and lib_d: "intel_pytorch_extension host_ipex_disabled = Some ipex_lib"
    and env_d: "environ host_ipex_disabled ''IPEX_DISABLE_MIXED_PRECISION'' = Some ''1''"
      "environ host_ipex_disabled ''KMP_AFFINITY'' = None"
    and amp_d: "amp_enabled host_ipex_disabled = False"
    and lines_d: "lscpu host_ipex_disabled = Some [''Thread(s) per core:                  1'' @ [CHR 0x0A]]"
    by (simp_all add: host_ipex_disabled_def host_ipex_one_def host_ipex_def host_scripted_def
          host_bare_def)
  have dev_d: "ipex_device host_ipex_disabled = Some (TorchDevice ''xpu'')"
    by code_simp
  have tok_d: "per_core_of [''Thread(s) per core:                  1'' @ [CHR 0x0A]] = [''1'']"
    by code_simp
  have one: "py_int (int_max_str_digits host_ipex_disabled) ''1'' = Some 1"
    by code_simp
  have cpu_f: "\<not> cuda_is_available host_ipex_amp_fails"
    and lib_f: "intel_pytorch_extension host_ipex_amp_fails
                  = Some (ipex_lib\<lparr>enable_auto_mix_precision_raises := True\<rparr>)"
    and env_f: "environ host_ipex_amp_fails ''IPEX_DISABLE_MIXED_PRECISION'' = None"
      "environ host_ipex_amp_fails ''KMP_AFFINITY'' = None"
    and amp_f: "amp_enabled host_ipex_amp_fails = False"
    by (simp_all add: host_ipex_amp_fails_def host_ipex_def host_scripted_def host_bare_def)
  have dev_f: "ipex_device host_ipex_amp_fails = Some (TorchDevice ''xpu'')"
    by code_simp
  have cpu_u: "\<not> cuda_is_available host_ipex_unknown"
    and lib_u: "intel_pytorch_extension host_ipex_unknown = Some (ipex_lib\<lparr>DEVICE := Some ''dpcpp''\<rparr>)"
    and env_u: "environ host_ipex_unknown ''KMP_AFFINITY'' = None"
    and amp_u: "amp_enabled host_ipex_unknown = False"
    by (simp_all add: host_ipex_unknown_def host_ipex_def host_scripted_def host_bare_def)
  have dev_u: "ipex_device host_ipex_unknown = None"
    by code_simp
  show ?thesis
    using mixed_precision_and_affinity [OF cpu lib run_triple [OF refl], of BaseHandler_init ctx_scripted]
          mixed_precision_and_affinity [OF cpu_d lib_d run_triple [OF refl], of BaseHandler_init ctx_scripted]
          mixed_precision_and_affinity [OF cpu_f lib_f run_triple [OF refl], of BaseHandler_init ctx_scripted]
          mixed_precision_and_affinity [OF cpu_u lib_u run_triple [OF refl], of BaseHandler_init ctx_scripted]
          env ok lines dev tok two env_d amp_d lines_d dev_d tok_d one env_f amp_f dev_f env_u amp_u dev_u
    by simp
qed

text \<open>
  C9 as stated fails where lscpu reports no number of threads per core: the word does not
  read as an integer, the exception is dropped, and \<open>KMP_AFFINITY\<close> is written with neither
  profile.
\<close>

theorem affinity_not_written_counterexample:
  "cuda_is_available host_ipex_dash = False
   \<and> intel_pytorch_extension host_ipex_dash = Some ipex_lib
   \<and> ipex_device host_ipex_dash = Some (TorchDevice ''xpu'')
   \<and> map_option per_core_of (lscpu host_ipex_dash) = Some [''-'']
   \<and> fst (initialize BaseHandler_init ctx_scripted host_ipex_dash) = Inr ()
   \<and> environ (snd (snd (initialize BaseHandler_init ctx_scripted host_ipex_dash))) ''KMP_AFFINITY'' = None"
  by code_simp

section \<open>Device resolution where it holds\<close>

lemma initialize_host:
  "cuda_is_available (snd (snd (initialize h ctx w))) = cuda_is_available w"
  "torch_device_rejects (snd (snd (initialize h ctx w))) = torch_device_rejects w"
  "intel_pytorch_extension (snd (snd (initialize h ctx w))) = intel_pytorch_extension w"
proof -
  have "cuda_is_available (snd (snd (initialize h ctx w))) = cuda_is_available w
        \<and> torch_device_rejects (snd (snd (initialize h ctx w))) = torch_device_rejects w
        \<and> intel_pytorch_extension (snd (snd (initialize h ctx w))) = intel_pytorch_extension w"
  proof (cases rule: initialize_cases [of h ctx w])
    case (device_failed e h2 w2)
    then show ?thesis
      using select_device_frame(1,2,3) [of h ctx w] by simp
  next
    case (model_failed e h2 w2 h3 w3)
    then show ?thesis
      using select_device_frame(1,2,3) [of h ctx w] load_model_world(1,2,3) [of h2 ctx w2] by simp
  next
    case (mapping_failed e h2 w2 h3 w3 h4 w4)
    then show ?thesis
      using select_device_frame(1,2,3) [of h ctx w] load_model_world(1,2,3) [of h2 ctx w2]
        load_mapping_world(1,2,3) [of h3 ctx w3] by simp
  next
    case (succeeded h2 w2 h3 w3 h4 w4)
    then show ?thesis
      using select_device_frame(1,2,3) [of h ctx w] load_model_world(1,2,3) [of h2 ctx w2]
        load_mapping_world(1,2,3) [of h3 ctx w3] by simp
  qed
  then show "cuda_is_available (snd (snd (initialize h ctx w))) = cuda_is_available w"
    and "torch_device_rejects (snd (snd (initialize h ctx w))) = torch_device_rejects w"
    and "intel_pytorch_extension (snd (snd (initialize h ctx w))) = intel_pytorch_extension w"
    by simp_all
qed

lemma same_host:
  assumes "cuda_is_available v = cuda_is_available w"
    and "torch_device_rejects v = torch_device_rejects w"
    and "intel_pytorch_extension v = intel_pytorch_extension w"
  shows "torch_device v = torch_device w" "device_string ctx v = device_string ctx w"
    "ipex_device v = ipex_device w"
proof -
  show t: "torch_device v = torch_device w"
    using assms(2) by (auto simp: torch_device_def fun_eq_iff)
  show "device_string ctx v = device_string ctx w"
    using assms(1) by (simp add: device_string_def map_location_of_def)
  show "ipex_device v = ipex_device w"
    using assms(3) t by (simp add: ipex_device_def split: option.splits)
qed

text \<open>
  The parts of device resolution that hold on the code. Lines 36 to 38 resolve the device
  cpu on a host with no accelerator. On a host with an accelerator, when the context gives
  \<open>gpu_id = n\<close> and \<open>torch.device\<close> accepts the string \<open>cuda:n\<close>, the device resolved is
  that one, and \<open>initialize\<close> leaves it on the handler. Whatever the first call returned,
  a second \<open>initialize\<close> with the same context, in the world the first one left, leaves
  the same device on the handler.
\<close>

theorem device_resolution:
  "(\<not> cuda_is_available w \<longrightarrow>
      resolve_device h ctx w
        = (Inr (), h\<lparr>manifest := Some (ctx_manifest ctx), device := Some (TorchDevice ''cpu'')\<rparr>))
   \<and> (cuda_is_available w \<and> gpu_id (system_properties ctx) = Some n
        \<and> torch_device w (''cuda:'' @ str_int n) = Inr (TorchDevice (''cuda:'' @ str_int n)) \<longrightarrow>
        resolve_device h ctx w
          = (Inr (), h\<lparr>manifest := Some (ctx_manifest ctx),
                       device := Some (TorchDevice (''cuda:'' @ str_int n))\<rparr>)
        \<and> device (fst (snd (initialize h ctx w))) = Some (TorchDevice (''cuda:'' @ str_int n)))
   \<and> device (fst (snd (initialize (fst (snd (initialize h ctx w))) ctx (snd (snd (initialize h ctx w))))))
       = device (fst (snd (initialize h ctx w)))"
proof -
  have again: "device (fst (snd (initialize k ctx v)))
                 = (case torch_device v (device_string ctx v) of
                      Inl e \<Rightarrow> device k
                    | Inr d \<Rightarrow> Some (if cuda_is_available v then d
                                     else (case ipex_device v of None \<Rightarrow> d | Some d' \<Rightarrow> d')))"
    for k v
    by (simp add: initialize_device select_device_device)
  define w1 where "w1 = snd (snd (initialize h ctx w))"
  have host: "cuda_is_available w1 = cuda_is_available w"
    "torch_device_rejects w1 = torch_device_rejects w"
    "intel_pytorch_extension w1 = intel_pytorch_extension w"
    unfolding w1_def by (rule initialize_host)+
  have same: "torch_device w1 = torch_device w" "device_string ctx w1 = device_string ctx w"
    "ipex_device w1 = ipex_device w"
    by (rule same_host [OF host])+
  have twice: "device (fst (snd (initialize (fst (snd (initialize h ctx w))) ctx w1)))
                 = device (fst (snd (initialize h ctx w)))"
    by (cases "torch_device w (device_string ctx w)") (simp_all add: again same host)
  have cpu: "resolve_device h ctx w
        = (Inr (), h\<lparr>manifest := Some (ctx_manifest ctx), device := Some (TorchDevice ''cpu'')\<rparr>)"
    if "\<not> cuda_is_available w"
    using that by (simp add: resolve_device_accepted device_string_cpu torch_device_cpu)
  have cuda: "resolve_device h ctx w
          = (Inr (), h\<lparr>manifest := Some (ctx_manifest ctx),
                       device := Some (TorchDevice (''cuda:'' @ str_int n))\<rparr>)
        \<and> device (fst (snd (initialize h ctx w))) = Some (TorchDevice (''cuda:'' @ str_int n))"
    if "cuda_is_available w" "gpu_id (system_properties ctx) = Some n"
      "torch_device w (''cuda:'' @ str_int n) = Inr (TorchDevice (''cuda:'' @ str_int n))"
    using that by (simp add: resolve_device_accepted device_string_cuda py_str_def again)
  from cpu cuda twice show ?thesis
    unfolding w1_def by blast
qed

theorem device_resolution_witness:
  "device (snd (resolve_device BaseHandler_init ctx_eager host_bare)) = Some (TorchDevice ''cpu'')
   \<and> device (snd (resolve_device BaseHandler_init ctx_eager host_cuda)) = Some (TorchDevice ''cuda:0'')
   \<and> device (fst (snd (initialize BaseHandler_init ctx_eager host_cuda))) = Some (TorchDevice ''cuda:0'')"
proof -
  have host: "\<not> cuda_is_available host_bare" "cuda_is_available host_cuda"
    by (simp_all add: host_cuda_def host_scripted_def host_bare_def)
  have gpu: "gpu_id (system_properties ctx_eager) = Some 0"
    by (simp add: ctx_eager_def)
  have zero: "str_int 0 = ''0''"
    by code_simp
  have accepted: "torch_device host_cuda ''cuda:0'' = Inr (TorchDevice ''cuda:0'')"
    by code_simp
  show ?thesis
    using device_resolution [of host_bare BaseHandler_init ctx_eager 0]
          device_resolution [of host_cuda BaseHandler_init ctx_eager 0] host gpu zero accepted
    by simp
qed

end
